theory Spec2Isabelle
  imports Main "HOL-Library.Word" "HOL-Library.Multiset"
begin

section \<open>The AWS networking-security compliance plugin\<close>

text \<open>
  The repository holds three revisions of the plugin's \<^verbatim>\<open>main.go\<close>:
  \<^item> \<^verbatim>\<open>src/main.go\<close>: one assessment result per (security group, policy) pair, assembled
    by \<^verbatim>\<open>Eval\<close> itself and handed to \<^verbatim>\<open>apiHelper.CreateResult\<close>;
  \<^item> \<^verbatim>\<open>src/unnamed/part_001\<close>: observations and findings come from the policy processor
    and are sent per security group with \<^verbatim>\<open>CreateObservations\<close> / \<^verbatim>\<open>CreateFindings\<close>;
  \<^item> \<^verbatim>\<open>src/unnamed/part_000\<close>: evidence per security group, sent with \<^verbatim>\<open>CreateEvidence\<close>,
    the groups read through the iterator \<^verbatim>\<open>getSecurityGroups\<close>.

  Each revision is embedded on its own. The collaborators that are not part of the
  repository (the AWS SDK, the policy manager, the evidence sink, the clock, the UUID
  generator) are parameters of the model, collected in a record; \<^verbatim>\<open>Eval\<close> threads an
  explicit state that counts clock readings and generated UUIDs and logs every call
  to the policy evaluator and to the sink. Logging (\<^verbatim>\<open>l.logger\<close>) has no effect on the
  result and is left out. A nil-pointer dereference is the outcome \<open>Panicked\<close>.
\<close>

subsection \<open>Errors: Go's \<^verbatim>\<open>error\<close> values and \<^verbatim>\<open>errors.Join\<close>\<close>

datatype error = Err string | joinError "error list"

text \<open>\<^verbatim>\<open>errors.Join\<close> discards nil arguments and returns nil when none is left.\<close>

primrec non_nil :: "error option list \<Rightarrow> error list" where
  "non_nil [] = []"
| "non_nil (e # es) = (case e of None \<Rightarrow> non_nil es | Some x \<Rightarrow> x # non_nil es)"

definition errors_Join :: "error option list \<Rightarrow> error option" where
  "errors_Join errs = (case non_nil errs of [] \<Rightarrow> None | e # es \<Rightarrow> Some (joinError (e # es)))"

text \<open>
  \<^verbatim>\<open>Eval\<close> accumulates its errors one at a time, \<^verbatim>\<open>acc = errors.Join(acc, err)\<close>, starting
  from nil. \<open>joined_errors acc\<close> lists the errors that were joined into such an
  accumulator, oldest first and as often as they were joined: the first join wraps one
  error, every later one wraps the accumulator so far and the new error.
\<close>

fun unjoin :: "error \<Rightarrow> error list" where
  "unjoin (joinError [e]) = [e]"
| "unjoin (joinError [acc, e]) = unjoin acc @ [e]"
| "unjoin e = [e]"

definition joined_errors :: "error option \<Rightarrow> error list" where
  "joined_errors acc = (case acc of None \<Rightarrow> [] | Some e \<Rightarrow> unjoin e)"

subsection \<open>Time: \<^verbatim>\<open>time.Time\<close>, \<^verbatim>\<open>AddDate\<close> and \<^verbatim>\<open>timestamppb\<close>\<close>

text \<open>
  The instant of a \<^verbatim>\<open>time.Time\<close> is modelled as the number of nanoseconds since the Unix
  epoch. Its zone is a \<^verbatim>\<open>Location\<close>, modelled by its lookup: for a Unix time in seconds,
  the offset of the zone in force (seconds east of UTC) and the Unix times at which that
  zone period starts and ends. \<^verbatim>\<open>time.Now()\<close> returns a time in the local zone.
\<close>

type_synonym Time = int

type_synonym Location = "int \<Rightarrow> int \<times> int \<times> int"

definition UTC :: Location where
  "UTC unix = (0, - (2 ^ 63), 2 ^ 63 - 1)"

text \<open>The two conversions between day numbers and dates of the proleptic Gregorian calendar.\<close>

definition days_from_civil :: "int \<Rightarrow> int \<Rightarrow> int \<Rightarrow> int" where
  "days_from_civil y m d =
     (let y' = (if m \<le> 2 then y - 1 else y);
          era = y' div 400;
          yoe = y' - era * 400;
          doy = (153 * (if 2 < m then m - 3 else m + 9) + 2) div 5 + d - 1;
          doe = yoe * 365 + yoe div 4 - yoe div 100 + doy
      in era * 146097 + doe - 719468)"

definition civil_from_days :: "int \<Rightarrow> int \<times> int \<times> int" where
  "civil_from_days z =
     (let z' = z + 719468;
          era = z' div 146097;
          doe = z' - era * 146097;
          yoe = (doe - doe div 1460 + doe div 36524 - doe div 146096) div 365;
          doy = doe - (365 * yoe + yoe div 4 - yoe div 100);
          mp = (5 * doy + 2) div 153;
          d = doy - (153 * mp + 2) div 5 + 1;
          m = (if mp < 10 then mp + 3 else mp - 9);
          y = yoe + era * 400
      in (if m \<le> 2 then y + 1 else y, m, d))"

text \<open>
  \<^verbatim>\<open>time.Date\<close> for a date whose month and day may be out of range (October 32 is
  November 1) and a time of day given in seconds, in a location; the result is a Unix
  time in seconds. The date is first read as if it were UTC; the offset in force at that
  time is subtracted, and looked up again when the result falls outside the zone period
  that was found.
\<close>

definition Date :: "int \<Rightarrow> int \<Rightarrow> int \<Rightarrow> int \<Rightarrow> Location \<Rightarrow> int" where
  "Date year month day secondOfDay loc =
     (let m0 = month - 1;
          year' = year + m0 div 12;
          month' = m0 mod 12 + 1;
          unix = (days_from_civil year' month' 1 + (day - 1)) * 86400 + secondOfDay
      in (case loc unix of
            (offset, zoneStart, zoneEnd) \<Rightarrow>
              if offset \<noteq> 0
              then (let utc = unix - offset;
                        offset' = (if utc < zoneStart \<or> zoneEnd \<le> utc then fst (loc utc) else offset)
                    in unix - offset')
              else unix))"

text \<open>
  \<^verbatim>\<open>Time.AddDate\<close>: the date and the clock of the instant are read in its location, the
  years, months and days are added to the fields of the date, and \<^verbatim>\<open>time.Date\<close> makes an
  instant of the result; the nanoseconds are kept.
\<close>

definition AddDate :: "Location \<Rightarrow> Time \<Rightarrow> int \<Rightarrow> int \<Rightarrow> int \<Rightarrow> Time" where
  "AddDate loc t years months days =
     (let unix = t div 1000000000;
          nsec = t mod 1000000000;
          localTime = unix + fst (loc unix)
      in (case civil_from_days (localTime div 86400) of
            (year, month, day) \<Rightarrow>
              Date (year + years) (month + months) (day + days) (localTime mod 86400) loc
                * 1000000000 + nsec))"

record Timestamp =
  Seconds :: int
  Nanos :: int

definition timestamppb_New :: "Time \<Rightarrow> Timestamp" where
  "timestamppb_New t = \<lparr>Seconds = t div 1000000000, Nanos = t mod 1000000000\<rparr>"

definition AsTime :: "Timestamp \<Rightarrow> Time" where
  "AsTime ts = Seconds ts * 1000000000 + Nanos ts"

subsection \<open>Decimal rendering for \<^verbatim>\<open>fmt.Sprintf("%d", n)\<close>\<close>

definition digit_char :: "nat \<Rightarrow> char" where
  "digit_char d = char_of (48 + d)"

function string_of_nat :: "nat \<Rightarrow> string" where
  "string_of_nat n =
     (if n < 10 then [digit_char n] else string_of_nat (n div 10) @ [digit_char (n mod 10)])"
  by pat_completeness auto
termination
  by (relation "measure id") auto

declare string_of_nat.simps [simp del]

subsection \<open>The policy manager's results\<close>

record PMLink =
  PMLink_URL :: string
  PMLink_Text :: string

record PMRisk =
  PMRisk_Title :: string
  PMRisk_Description :: string
  PMRisk_Statement :: string
  PMRisk_Links :: "PMLink list"

record Violation =
  Violation_Title :: string
  Violation_Description :: string
  Violation_Remarks :: string

text \<open>\<open>Policy_Package\<close> is \<^verbatim>\<open>result.Policy.Package\<close>, a string type.\<close>

record Result =
  Policy_Package :: string
  Violations :: "Violation list"
  Risks :: "PMRisk list"

subsection \<open>The artifacts of \<^verbatim>\<open>main.go\<close>\<close>

datatype FindingTargetStatus = FindingTargetStatusSatisfied | FindingTargetStatusNotSatisfied

text \<open>
  \<open>Observation_RelevantEvidence\<close> lists the descriptions of the evidence entries, and
  \<open>Finding_RelatedObservations\<close> the \<^verbatim>\<open>ObservationUuid\<close> of each related observation:
  the only field the code sets in either.
\<close>

record Observation =
  Observation_Uuid :: string
  Observation_Title :: "string option"
  Observation_Description :: string
  Observation_Collected :: Timestamp
  Observation_Expires :: Timestamp
  Observation_RelevantEvidence :: "string list"
  Observation_Labels :: "string \<rightharpoonup> string"

record Finding =
  Finding_Title :: string
  Finding_Description :: string
  Finding_Remarks :: "string option"
  Finding_RelatedObservations :: "string list"
  Finding_Target :: FindingTargetStatus
  Finding_Labels :: "string \<rightharpoonup> string"

record Link =
  Link_Href :: string
  Link_Text :: "string option"

record Property =
  Property_Name :: string
  Property_Value :: string

record Risk =
  Risk_Title :: string
  Risk_Description :: string
  Risk_Statement :: string
  Risk_Props :: "Property list"
  Risk_Links :: "Link list"

record LogEntry =
  LogEntry_Title :: "string option"
  LogEntry_Description :: "string option"
  LogEntry_Start :: Timestamp
  LogEntry_End :: Timestamp

text \<open>
  \<^verbatim>\<open>runner.NewCallableAssessmentResult()\<close> with its \<^verbatim>\<open>Add...\<close> methods: each appends to the
  list it names, and \<^verbatim>\<open>Result()\<close> returns what was collected.
\<close>

record AssessmentResult =
  AR_Title :: string
  AR_Start :: "Timestamp option"
  AR_End :: "Timestamp option"
  AR_Observations :: "Observation list"
  AR_Findings :: "Finding list"
  AR_Risks :: "Risk list"
  AR_Logs :: "LogEntry list"

definition NewCallableAssessmentResult :: AssessmentResult where
  "NewCallableAssessmentResult =
     \<lparr>AR_Title = [], AR_Start = None, AR_End = None, AR_Observations = [],
      AR_Findings = [], AR_Risks = [], AR_Logs = []\<rparr>"

definition AddObservation :: "Observation \<Rightarrow> AssessmentResult \<Rightarrow> AssessmentResult" where
  "AddObservation ob ar = ar\<lparr>AR_Observations := AR_Observations ar @ [ob]\<rparr>"

definition AddFinding :: "Finding \<Rightarrow> AssessmentResult \<Rightarrow> AssessmentResult" where
  "AddFinding f ar = ar\<lparr>AR_Findings := AR_Findings ar @ [f]\<rparr>"

definition AddRiskEntry :: "Risk \<Rightarrow> AssessmentResult \<Rightarrow> AssessmentResult" where
  "AddRiskEntry r ar = ar\<lparr>AR_Risks := AR_Risks ar @ [r]\<rparr>"

definition AddLogEntry :: "LogEntry \<Rightarrow> AssessmentResult \<Rightarrow> AssessmentResult" where
  "AddLogEntry e ar = ar\<lparr>AR_Logs := AR_Logs ar @ [e]\<rparr>"

subsection \<open>The provider's resources\<close>

text \<open>
  The permission rules of a security group are handed to the policy evaluator as they
  are; the plugin never looks inside them.
\<close>

typedecl IpPermission

text \<open>\<^verbatim>\<open>types.SecurityGroup\<close>: the fields the plugin reads. The three names are \<^verbatim>\<open>*string\<close>.\<close>

record SecurityGroup =
  GroupId :: "string option"
  GroupName :: "string option"
  VpcId :: "string option"
  IpPermissions :: "IpPermission list"
  IpPermissionsEgress :: "IpPermission list"

record DescribeSecurityGroupsOutput =
  SecurityGroups :: "SecurityGroup list"

definition aws_ToString :: "string option \<Rightarrow> string" where
  "aws_ToString p = (case p of None \<Rightarrow> [] | Some s \<Rightarrow> s)"

text \<open>
  The document \<^verbatim>\<open>main.go\<close> builds for one security group: a map with exactly these
  three keys.
\<close>

record Instance =
  instance_SecurityGroupID :: string
  instance_IpPermissions :: "IpPermission list"
  instance_IpPermissionsEgress :: "IpPermission list"

definition normalize :: "SecurityGroup \<Rightarrow> Instance" where
  "normalize grp =
     \<lparr>instance_SecurityGroupID = aws_ToString (GroupId grp),
      instance_IpPermissions = IpPermissions grp,
      instance_IpPermissionsEgress = IpPermissionsEgress grp\<rparr>"

subsection \<open>Requests, responses and the plugin object\<close>

datatype ExecutionStatus = SUCCESS | FAILURE

record EvalRequest =
  PolicyPaths :: "string list"

text \<open>The generated getters accept a nil request.\<close>

definition GetPolicyPaths :: "EvalRequest option \<Rightarrow> string list" where
  "GetPolicyPaths request = (case request of None \<Rightarrow> [] | Some r \<Rightarrow> PolicyPaths r)"

record EvalResponse =
  Status :: ExecutionStatus

record ConfigureRequest =
  Config :: "string \<rightharpoonup> string"

definition GetConfig :: "ConfigureRequest option \<Rightarrow> (string \<rightharpoonup> string)" where
  "GetConfig req = (case req of None \<Rightarrow> Map.empty | Some r \<Rightarrow> Config r)"

datatype ConfigureResponse = ConfigureResponse

text \<open>The logger is opaque; \<open>config\<close> is the stored configuration map.\<close>

typedecl Logger

record CompliancePlugin =
  logger :: Logger
  config :: "string \<rightharpoonup> string"

text \<open>
  \<^verbatim>\<open>Configure\<close> (the same in all three revisions): the updated plugin, and the pair
  (response pointer, error) it returns.
\<close>

definition Configure ::
  "CompliancePlugin \<Rightarrow> ConfigureRequest option \<Rightarrow>
   CompliancePlugin \<times> ConfigureResponse option \<times> error option" where
  "Configure l req = (l\<lparr>config := GetConfig req\<rparr>, Some ConfigureResponse, None)"

subsection \<open>UUIDs\<close>

text \<open>
  A \<^verbatim>\<open>uuid.UUID\<close> is an array of 16 bytes, here a 128-bit word with byte 0 the most
  significant; \<^verbatim>\<open>String()\<close> renders it as 32 hexadecimal digits in the groups 8-4-4-4-12.
\<close>

type_synonym UUID = "128 word"

definition hex_char :: "nat \<Rightarrow> char" where
  "hex_char d = (if d < 10 then char_of (48 + d) else char_of (87 + d))"

primrec hex_digits :: "nat \<Rightarrow> nat \<Rightarrow> string" where
  "hex_digits 0 n = []"
| "hex_digits (Suc k) n = hex_digits k (n div 16) @ [hex_char (n mod 16)]"

definition UUID_String :: "UUID \<Rightarrow> string" where
  "UUID_String u =
     (let h = hex_digits 32 (unat u)
      in take 8 h @ ''-'' @ take 4 (drop 8 h) @ ''-'' @ take 4 (drop 12 h) @ ''-'' @
         take 4 (drop 16 h) @ ''-'' @ drop 20 h)"

subsection \<open>\<^verbatim>\<open>Eval\<close> of \<^verbatim>\<open>main.go\<close>: collaborators and state\<close>

text \<open>What \<^verbatim>\<open>apiHelper.CreateResult\<close> is called with.\<close>

record CreateResultCall =
  call_streamId :: string
  call_labels :: "string \<rightharpoonup> string"
  call_policyPath :: string
  call_result :: AssessmentResult

text \<open>
  The collaborators of one run:
  \<^item> \<open>now_at k\<close> is the instant the \<open>k\<close>-th call of \<^verbatim>\<open>time.Now()\<close> returns and \<open>Local\<close> the
    zone of the process; \<open>uuid_at k\<close> is what the \<open>k\<close>-th call of \<^verbatim>\<open>uuid.New().String()\<close>
    returns;
  \<^item> \<open>LoadDefaultConfig\<close> is the error of \<^verbatim>\<open>config.LoadDefaultConfig\<close> (nil when it succeeds);
  \<^item> \<open>DescribeSecurityGroups\<close> is the pair (output pointer, error) of the provider call;
  \<^item> \<open>Execute policyPath instance\<close> is \<^verbatim>\<open>policyManager.New(..., policyPath).Execute\<close>;
  \<^item> \<open>PurePackage\<close> is the method of the policy manager's \<^verbatim>\<open>Package\<close> type;
  \<^item> \<open>SeededUUID\<close> is \<^verbatim>\<open>sdk.SeededUUID\<close>;
  \<^item> \<open>CreateResult earlier call\<close> is the error the sink returns for \<open>call\<close> after it has
    received the calls \<open>earlier\<close>.

  The policy evaluator and the seeding function are taken to answer the same arguments
  in the same way throughout a run; the sink may answer by what it has received.
\<close>

record Env =
  now_at :: "nat \<Rightarrow> Time"
  Local :: Location
  uuid_at :: "nat \<Rightarrow> string"
  LoadDefaultConfig :: "error option"
  DescribeSecurityGroups :: "DescribeSecurityGroupsOutput option \<times> error option"
  Execute :: "string \<Rightarrow> Instance \<Rightarrow> error + Result list"
  PurePackage :: "string \<Rightarrow> string"
  SeededUUID :: "(string \<rightharpoonup> string) \<Rightarrow> error + UUID"
  CreateResult :: "CreateResultCall list \<Rightarrow> CreateResultCall \<Rightarrow> error option"

text \<open>
  The state of a run: the clock readings and UUIDs taken so far, the calls made to the
  policy evaluator and to the sink, and the two variables \<^verbatim>\<open>evalStatus\<close> and \<^verbatim>\<open>errAcc\<close>.
\<close>

record State =
  ticks :: nat
  uuids :: nat
  executed :: "(string \<times> Instance) list"
  published :: "CreateResultCall list"
  evalStatus :: ExecutionStatus
  errAcc :: "error option"

definition time_Now :: "Env \<Rightarrow> State \<Rightarrow> Time \<times> State" where
  "time_Now env st = (now_at env (ticks st), st\<lparr>ticks := Suc (ticks st)\<rparr>)"

definition uuid_New :: "Env \<Rightarrow> State \<Rightarrow> string \<times> State" where
  "uuid_New env st = (uuid_at env (uuids st), st\<lparr>uuids := Suc (uuids st)\<rparr>)"

text \<open>
  The two statements every error branch of \<^verbatim>\<open>Eval\<close> runs:
  \<^verbatim>\<open>evalStatus = FAILURE; errAcc = errors.Join(errAcc, err)\<close>.
\<close>

definition record_failure :: "error \<Rightarrow> State \<Rightarrow> State" where
  "record_failure err st =
     st\<lparr>evalStatus := FAILURE, errAcc := errors_Join [errAcc st, Some err]\<rparr>"

text \<open>The label literal of every observation and finding.\<close>

definition artifact_labels :: "Result \<Rightarrow> Instance \<Rightarrow> (string \<rightharpoonup> string)" where
  "artifact_labels result inst =
     [''package'' \<mapsto> Policy_Package result,
      ''type'' \<mapsto> ''aws'',
      ''service'' \<mapsto> ''security-groups'',
      ''security_group_id'' \<mapsto> instance_SecurityGroupID inst]"

subsection \<open>\<^verbatim>\<open>Eval\<close> of \<^verbatim>\<open>main.go\<close>: one verdict\<close>

text \<open>Lines 93 to 130: the branch \<^verbatim>\<open>len(result.Violations) == 0\<close>.\<close>

definition no_violations ::
  "Env \<Rightarrow> Instance \<Rightarrow> Result \<Rightarrow> State \<times> AssessmentResult \<Rightarrow> State \<times> AssessmentResult" where
  "no_violations env inst result s =
     (case s of (st, ar) \<Rightarrow>
      case uuid_New env st of (u, st1) \<Rightarrow>
      case time_Now env st1 of (collected, st2) \<Rightarrow>
      case time_Now env st2 of (now2, st3) \<Rightarrow>
      let pure = PurePackage env (Policy_Package result);
          ar1 = AddObservation
            \<lparr>Observation_Uuid = u,
             Observation_Title = Some ''The plugin succeeded. No compliance issues to report.'',
             Observation_Description = ''The plugin policies did not return any violations. The configuration is in compliance with policies.'',
             Observation_Collected = timestamppb_New collected,
             Observation_Expires = timestamppb_New (AddDate (Local env) now2 0 1 0),
             Observation_RelevantEvidence =
               [''Policy '' @ pure @ '' was evaluated, and no violations were found on machineId: '' @ ''ARN:12345''],
             Observation_Labels = artifact_labels result inst\<rparr> ar;
          ar2 = AddFinding
            \<lparr>Finding_Title = ''No violations found on '' @ pure,
             Finding_Description = ''No violations found on the '' @ pure @ '' policy within the Template Compliance Plugin.'',
             Finding_Remarks = None,
             Finding_RelatedObservations = [],
             Finding_Target = FindingTargetStatusSatisfied,
             Finding_Labels = artifact_labels result inst\<rparr> ar1
      in (st3, ar2))"

text \<open>
  Lines 156 to 179: one finding per violation. Each iteration has its own \<^verbatim>\<open>violation\<close>
  variable (Go 1.22 and later), so \<^verbatim>\<open>&violation.Remarks\<close> is that violation's remarks.
\<close>

definition violation_finding ::
  "Instance \<Rightarrow> Result \<Rightarrow> string \<Rightarrow> Violation \<Rightarrow> AssessmentResult \<Rightarrow> AssessmentResult" where
  "violation_finding inst result observationUuid violation ar =
     AddFinding
       \<lparr>Finding_Title = Violation_Title violation,
        Finding_Description = Violation_Description violation,
        Finding_Remarks = Some (Violation_Remarks violation),
        Finding_RelatedObservations = [observationUuid],
        Finding_Target = FindingTargetStatusNotSatisfied,
        Finding_Labels = artifact_labels result inst\<rparr> ar"

text \<open>Lines 134 to 180: the branch \<^verbatim>\<open>len(result.Violations) > 0\<close>.\<close>

definition violations_found ::
  "Env \<Rightarrow> Instance \<Rightarrow> Result \<Rightarrow> State \<times> AssessmentResult \<Rightarrow> State \<times> AssessmentResult" where
  "violations_found env inst result s =
     (case s of (st, ar) \<Rightarrow>
      case uuid_New env st of (observationUuid, st1) \<Rightarrow>
      case time_Now env st1 of (collected, st2) \<Rightarrow>
      case time_Now env st2 of (now2, st3) \<Rightarrow>
      let pure = PurePackage env (Policy_Package result);
          n = string_of_nat (length (Violations result));
          ar1 = AddObservation
            \<lparr>Observation_Uuid = observationUuid,
             Observation_Title =
               Some (''The plugin found violations for policy '' @ pure @ '' on machineId: '' @ ''ARN:12345''),
             Observation_Description = ''Observed '' @ n @ '' violation(s) for policy '' @ pure,
             Observation_Collected = timestamppb_New collected,
             Observation_Expires = timestamppb_New (AddDate (Local env) now2 0 1 0),
             Observation_RelevantEvidence =
               [''Policy '' @ pure @ '' was evaluated, and '' @ n @ '' violations were found''],
             Observation_Labels = artifact_labels result inst\<rparr> ar
      in (st3, fold (violation_finding inst result observationUuid) (Violations result) ar1))"

text \<open>
  Lines 182 to 198: one risk per risk entry, its links translated one by one (each
  iteration with its own \<^verbatim>\<open>link\<close> variable).
\<close>

definition append_link :: "PMLink \<Rightarrow> Link list \<Rightarrow> Link list" where
  "append_link link links =
     links @ [\<lparr>Link_Href = PMLink_URL link, Link_Text = Some (PMLink_Text link)\<rparr>]"

definition risk_entry :: "PMRisk \<Rightarrow> AssessmentResult \<Rightarrow> AssessmentResult" where
  "risk_entry risk ar =
     (let links = fold append_link (PMRisk_Links risk) []
      in AddRiskEntry
           \<lparr>Risk_Title = PMRisk_Title risk,
            Risk_Description = PMRisk_Description risk,
            Risk_Statement = PMRisk_Statement risk,
            Risk_Props = [],
            Risk_Links = links\<rparr> ar)"

text \<open>Lines 89 to 199: the body of the loop over the verdicts of one policy.\<close>

definition result_body ::
  "Env \<Rightarrow> Instance \<Rightarrow> Result \<Rightarrow> State \<times> AssessmentResult \<Rightarrow> State \<times> AssessmentResult" where
  "result_body env inst result s =
     (let s1 = (if length (Violations result) = 0 then no_violations env inst result s else s);
          s2 = (if 0 < length (Violations result) then violations_found env inst result s1 else s1)
      in (fst s2, fold risk_entry (Risks result) (snd s2)))"

subsection \<open>\<^verbatim>\<open>Eval\<close> of \<^verbatim>\<open>main.go\<close>: the stream identifier and the run\<close>

text \<open>Lines 206 to 210: the label set the stream identifier is seeded with.\<close>

definition seed_labels :: "string \<Rightarrow> Instance \<Rightarrow> (string \<rightharpoonup> string)" where
  "seed_labels policyPath inst =
     [''type'' \<mapsto> ''aws'',
      ''_policy'' \<mapsto> policyPath,
      ''security_group_id'' \<mapsto> instance_SecurityGroupID inst]"

definition streamId ::
  "((string \<rightharpoonup> string) \<Rightarrow> error + UUID) \<Rightarrow> string \<Rightarrow> Instance \<Rightarrow> error + UUID" where
  "streamId seed policyPath inst = seed (seed_labels policyPath inst)"

definition publish_labels :: "string \<Rightarrow> Instance \<Rightarrow> (string \<rightharpoonup> string)" where
  "publish_labels policyPath inst =
     [''type'' \<mapsto> ''aws'',
      ''service'' \<mapsto> ''security-groups'',
      ''_policy'' \<mapsto> policyPath,
      ''security_group_id'' \<mapsto> instance_SecurityGroupID inst]"

text \<open>
  Lines 201 to 239: the assessment result is stamped, the stream identifier computed,
  the log entry added and the result handed to the sink.
\<close>

definition finish_and_publish ::
  "Env \<Rightarrow> Time \<Rightarrow> Instance \<Rightarrow> string \<Rightarrow> AssessmentResult \<Rightarrow> State \<Rightarrow> State" where
  "finish_and_publish env startTime inst policyPath ar st =
     (case time_Now env st of (endTime, st1) \<Rightarrow>
        (let ar1 = ar\<lparr>AR_Start := Some (timestamppb_New startTime),
                      AR_End := Some (timestamppb_New endTime)\<rparr>
         in (case streamId (SeededUUID env) policyPath inst of
               Inl err \<Rightarrow> record_failure err st1
             | Inr sid \<Rightarrow>
                 (let ar2 = AddLogEntry
                        \<lparr>LogEntry_Title = Some ''Template check'',
                         LogEntry_Description = Some ''Template plugin checks completed successfully'',
                         LogEntry_Start = timestamppb_New startTime,
                         LogEntry_End = timestamppb_New endTime\<rparr> ar1;
                      call = \<lparr>call_streamId = UUID_String sid,
                              call_labels = publish_labels policyPath inst,
                              call_policyPath = policyPath,
                              call_result = ar2\<rparr>;
                      st2 = st1\<lparr>published := published st1 @ [call]\<rparr>
                  in (case CreateResult env (published st1) call of
                        Some err \<Rightarrow> record_failure err st2
                      | None \<Rightarrow> st2)))))"

text \<open>Lines 76 to 240: the body of the loop over the policy paths, for one instance.\<close>

definition policy_body :: "Env \<Rightarrow> Time \<Rightarrow> Instance \<Rightarrow> string \<Rightarrow> State \<Rightarrow> State" where
  "policy_body env startTime inst policyPath st =
     (let st1 = st\<lparr>executed := executed st @ [(policyPath, inst)]\<rparr>
      in (case Execute env policyPath inst of
            Inl err \<Rightarrow> record_failure err st1
          | Inr results \<Rightarrow>
              (let s = fold (result_body env inst) results
                         (st1, NewCallableAssessmentResult
                                 \<lparr>AR_Title := ''Security Group checks - AWS plugin''\<rparr>)
               in finish_and_publish env startTime inst policyPath (snd s) (fst s))))"

definition instance_body :: "Env \<Rightarrow> Time \<Rightarrow> string list \<Rightarrow> Instance \<Rightarrow> State \<Rightarrow> State" where
  "instance_body env startTime policyPaths inst st =
     fold (policy_body env startTime inst) policyPaths st"

datatype EvalOutcome = Panicked | Returned EvalResponse "error option"

definition init_state :: State where
  "init_state = \<lparr>ticks = 0, uuids = 0, executed = [], published = [],
                 evalStatus = SUCCESS, errAcc = None\<rparr>"

text \<open>
  \<^verbatim>\<open>Eval\<close> of \<^verbatim>\<open>main.go\<close>. Line 63 reads \<^verbatim>\<open>output.SecurityGroups\<close> whatever the error of the
  provider call was: with a nil \<^verbatim>\<open>output\<close> the run panics there.
\<close>

definition Eval :: "Env \<Rightarrow> EvalRequest option \<Rightarrow> EvalOutcome \<times> State" where
  "Eval env request =
     (let startTime = fst (time_Now env init_state);
          st1 = snd (time_Now env init_state);
          st2 = (case LoadDefaultConfig env of Some err \<Rightarrow> record_failure err st1 | None \<Rightarrow> st1);
          output = fst (DescribeSecurityGroups env);
          st3 = (case snd (DescribeSecurityGroups env) of
                   Some err \<Rightarrow> record_failure err st2
                 | None \<Rightarrow> st2)
      in (case output of
            None \<Rightarrow> (Panicked, st3)
          | Some out \<Rightarrow>
              (let securityGroups = fold (\<lambda>grp acc. acc @ [normalize grp]) (SecurityGroups out) [];
                   st4 = fold (instance_body env startTime (GetPolicyPaths request)) securityGroups st3
               in (Returned \<lparr>Status = evalStatus st4\<rparr> (errAcc st4), st4))))"

section \<open>The revision of \<^verbatim>\<open>src/unnamed/part_001\<close>\<close>

text \<open>
  Modelled from the spec: \<^verbatim>\<open>internal.MergeMaps\<close> belongs to the repository but is not
  among the sources. The label set is "merged from a base label set and per-policy
  overrides; later values win on key collision".
\<close>

definition MergeMaps :: "(string \<rightharpoonup> string) \<Rightarrow> (string \<rightharpoonup> string) \<Rightarrow> (string \<rightharpoonup> string)" where
  "MergeMaps base overrides = base ++ overrides"

text \<open>\<^verbatim>\<open>internal.StringAddressed\<close> returns the address of its argument.\<close>

definition StringAddressed :: "string \<Rightarrow> string option" where
  "StringAddressed s = Some s"

record SubjectReference =
  SubjectReference_Type :: string
  SubjectReference_Attributes :: "string \<rightharpoonup> string"
  SubjectReference_Title :: "string option"
  SubjectReference_Props :: "Property list"

text \<open>
  The observations \<open>'o\<close> and findings \<open>'f\<close> of this revision are made by the policy
  processor and passed to the sink untouched. The actors, components and activities
  handed to \<^verbatim>\<open>NewPolicyProcessor\<close> are the same constants for every group and policy, so
  the processor is a function of what varies: labels, subjects, policy path and group.
  \<open>GenerateResults_001\<close> returns the triple (observations, findings, error);
  \<open>apiHelper_001 earlier call\<close> is the error the sink returns for \<open>call\<close> after the
  calls \<open>earlier\<close>.
\<close>

datatype ('o, 'f) ApiCall = CreateObservations "'o list" | CreateFindings "'f list"

record ('o, 'f) Env_001 =
  LoadDefaultConfig_001 :: "error option"
  DescribeSecurityGroups_001 :: "DescribeSecurityGroupsOutput option \<times> error option"
  GenerateResults_001 ::
    "(string \<rightharpoonup> string) \<Rightarrow> SubjectReference list \<Rightarrow> string \<Rightarrow> SecurityGroup \<Rightarrow>
     'o list \<times> 'f list \<times> error option"
  apiHelper_001 :: "('o, 'f) ApiCall list \<Rightarrow> ('o, 'f) ApiCall \<Rightarrow> error option"

record ('o, 'f) State_001 =
  generated_001 :: "(string \<times> SecurityGroup) list"
  api_calls_001 :: "('o, 'f) ApiCall list"
  evalStatus_001 :: ExecutionStatus
  accumulatedErrors_001 :: "error option"

text \<open>Lines 62 to 66 and 67 to 104, for a group whose three names are present.\<close>

definition labels_001 :: "string \<Rightarrow> (string \<rightharpoonup> string)" where
  "labels_001 groupId =
     [''type'' \<mapsto> ''aws'', ''service'' \<mapsto> ''security-groups'', ''instance-id'' \<mapsto> groupId]"

definition subjects_001 :: "string \<Rightarrow> string \<Rightarrow> string \<Rightarrow> SubjectReference list" where
  "subjects_001 groupId groupName vpcId =
     [\<lparr>SubjectReference_Type = ''aws-security-group'',
       SubjectReference_Attributes =
         [''type'' \<mapsto> ''aws'', ''service'' \<mapsto> ''security-group'', ''instance-id'' \<mapsto> groupId,
          ''instance-name'' \<mapsto> groupName, ''vpc-id'' \<mapsto> vpcId],
       SubjectReference_Title = StringAddressed ''AWS Security Group'',
       SubjectReference_Props =
         [\<lparr>Property_Name = ''security-group-id'', Property_Value = groupId\<rparr>,
          \<lparr>Property_Name = ''security-group-name'', Property_Value = groupName\<rparr>]\<rparr>,
      \<lparr>SubjectReference_Type = ''aws-vpc'',
       SubjectReference_Attributes =
         [''type'' \<mapsto> ''aws'', ''service'' \<mapsto> ''vpc'', ''vpc-id'' \<mapsto> vpcId],
       SubjectReference_Title = StringAddressed ''AWS VPC'',
       SubjectReference_Props = [\<lparr>Property_Name = ''vpc-id'', Property_Value = vpcId\<rparr>]\<rparr>]"

text \<open>Lines 135 to 156: the body of the loop over the policy paths.\<close>

definition policy_body_001 ::
  "('o, 'f) Env_001 \<Rightarrow> (string \<rightharpoonup> string) \<Rightarrow> SubjectReference list \<Rightarrow> SecurityGroup \<Rightarrow> string \<Rightarrow>
   'o list \<times> 'f list \<times> ('o, 'f) State_001 \<Rightarrow> 'o list \<times> 'f list \<times> ('o, 'f) State_001" where
  "policy_body_001 env labels subjects grp policyPath s =
     (case s of (observations, findings, st) \<Rightarrow>
        (case GenerateResults_001 env (MergeMaps labels [''_policy_path'' \<mapsto> policyPath])
                subjects policyPath grp of
           (obs, finds, err) \<Rightarrow>
             (let st1 = st\<lparr>generated_001 := generated_001 st @ [(policyPath, grp)]\<rparr>
              in (observations @ obs, findings @ finds,
                  (case err of
                     Some e \<Rightarrow>
                       st1\<lparr>accumulatedErrors_001 := errors_Join [accumulatedErrors_001 st1, Some e]\<rparr>
                   | None \<Rightarrow> st1)))))"

text \<open>
  What one iteration of a loop over the groups ends with: the next iteration, or the
  end of \<^verbatim>\<open>Eval\<close> (a \<^verbatim>\<open>return\<close>, or a panic).
\<close>

datatype 's Step = Continue 's | Stop EvalOutcome 's

text \<open>
  Lines 57 to 171: the body of the loop over the groups. The three names are
  dereferenced without a nil check (\<^verbatim>\<open>*group.GroupId\<close>, \<^verbatim>\<open>*group.GroupName\<close>,
  \<^verbatim>\<open>*group.VpcId\<close>) before anything else is done for the group.
\<close>

definition group_body_001 ::
  "('o, 'f) Env_001 \<Rightarrow> string list \<Rightarrow> SecurityGroup \<Rightarrow> ('o, 'f) State_001 \<Rightarrow> ('o, 'f) State_001 Step" where
  "group_body_001 env policyPaths grp st =
     (case (GroupId grp, GroupName grp, VpcId grp) of
        (Some groupId, Some groupName, Some vpcId) \<Rightarrow>
          (case fold (policy_body_001 env (labels_001 groupId)
                        (subjects_001 groupId groupName vpcId) grp) policyPaths ([], [], st) of
             (observations, findings, st1) \<Rightarrow>
               (let st2 = st1\<lparr>api_calls_001 := api_calls_001 st1 @ [CreateObservations observations]\<rparr>
                in (case apiHelper_001 env (api_calls_001 st1) (CreateObservations observations) of
                      Some err \<Rightarrow> Stop (Returned \<lparr>Status = FAILURE\<rparr> (Some err)) st2
                    | None \<Rightarrow>
                        (let st3 = st2\<lparr>api_calls_001 := api_calls_001 st2 @ [CreateFindings findings]\<rparr>
                         in (case apiHelper_001 env (api_calls_001 st2) (CreateFindings findings) of
                               Some err \<Rightarrow> Stop (Returned \<lparr>Status = FAILURE\<rparr> (Some err)) st3
                             | None \<Rightarrow> Continue st3)))))
      | _ \<Rightarrow> Stop Panicked st)"

fun groups_loop_001 ::
  "('o, 'f) Env_001 \<Rightarrow> string list \<Rightarrow> SecurityGroup list \<Rightarrow> ('o, 'f) State_001 \<Rightarrow>
   EvalOutcome \<times> ('o, 'f) State_001" where
  "groups_loop_001 env policyPaths [] st =
     (Returned \<lparr>Status = evalStatus_001 st\<rparr> (accumulatedErrors_001 st), st)"
| "groups_loop_001 env policyPaths (grp # rest) st =
     (case group_body_001 env policyPaths grp st of
        Continue st' \<Rightarrow> groups_loop_001 env policyPaths rest st'
      | Stop outcome st' \<Rightarrow> (outcome, st'))"

definition init_state_001 :: "('o, 'f) State_001" where
  "init_state_001 = \<lparr>generated_001 = [], api_calls_001 = [],
                     evalStatus_001 = SUCCESS, accumulatedErrors_001 = None\<rparr>"

definition Eval_part_001 ::
  "('o, 'f) Env_001 \<Rightarrow> EvalRequest option \<Rightarrow> EvalOutcome \<times> ('o, 'f) State_001" where
  "Eval_part_001 env request =
     (let st0 = init_state_001;
          st1 = (case LoadDefaultConfig_001 env of
                   Some err \<Rightarrow> st0\<lparr>evalStatus_001 := FAILURE,
                                   accumulatedErrors_001 := errors_Join [accumulatedErrors_001 st0, Some err]\<rparr>
                 | None \<Rightarrow> st0);
          output = fst (DescribeSecurityGroups_001 env);
          st2 = (case snd (DescribeSecurityGroups_001 env) of
                   Some err \<Rightarrow> st1\<lparr>evalStatus_001 := FAILURE,
                                   accumulatedErrors_001 := errors_Join [accumulatedErrors_001 st1, Some err]\<rparr>
                 | None \<Rightarrow> st1)
      in (case output of
            None \<Rightarrow> (Panicked, st2)
          | Some out \<Rightarrow> groups_loop_001 env (GetPolicyPaths request) (SecurityGroups out) st2))"

section \<open>The revision of \<^verbatim>\<open>src/unnamed/part_000\<close>\<close>

text \<open>
  \<^verbatim>\<open>getSecurityGroups\<close> (lines 169 to 183): the sequence the iterator yields, as a list of
  (group, error) pairs. A failed provider call yields one pair, the zero group with the
  error, and stops; otherwise every group is yielded with a nil error. The result is
  \<open>None\<close> when the iterator panics (nil output without an error).
\<close>

definition zero_SecurityGroup :: SecurityGroup where
  "zero_SecurityGroup =
     \<lparr>GroupId = None, GroupName = None, VpcId = None, IpPermissions = [], IpPermissionsEgress = []\<rparr>"

definition getSecurityGroups ::
  "DescribeSecurityGroupsOutput option \<times> error option \<Rightarrow> (SecurityGroup \<times> error option) list option" where
  "getSecurityGroups r =
     (case snd r of
        Some err \<Rightarrow> Some [(zero_SecurityGroup, Some err)]
      | None \<Rightarrow>
          (case fst r of
             None \<Rightarrow> None
           | Some result \<Rightarrow> Some (map (\<lambda>grp. (grp, None)) (SecurityGroups result))))"

datatype SubjectType = SUBJECT_TYPE_COMPONENT | SUBJECT_TYPE_INVENTORY_ITEM

record Subject =
  Subject_Type :: SubjectType
  Subject_Identifier :: string

text \<open>\<open>InventoryItem_ImplementedComponents\<close> lists the identifiers of the components.\<close>

record InventoryItem =
  InventoryItem_Identifier :: string
  InventoryItem_Type :: string
  InventoryItem_Title :: string
  InventoryItem_Props :: "Property list"
  InventoryItem_ImplementedComponents :: "string list"

text \<open>
  The evidence \<open>'e\<close> is made by the policy processor; actors, components and activities
  are constants, as before. \<open>CreateEvidence_000 earlier evidences\<close> is the error of the
  sink for \<open>evidences\<close> after the calls \<open>earlier\<close>.
\<close>

record 'e Env_000 =
  LoadDefaultConfig_000 :: "error option"
  DescribeSecurityGroups_000 :: "DescribeSecurityGroupsOutput option \<times> error option"
  GenerateResults_000 ::
    "(string \<rightharpoonup> string) \<Rightarrow> Subject list \<Rightarrow> InventoryItem list \<Rightarrow> string \<Rightarrow> SecurityGroup \<Rightarrow>
     'e list \<times> error option"
  CreateEvidence_000 :: "'e list list \<Rightarrow> 'e list \<Rightarrow> error option"

record 'e State_000 =
  generated_000 :: "(string \<times> SecurityGroup) list"
  evidence_calls_000 :: "'e list list"
  evalStatus_000 :: ExecutionStatus
  accumulatedErrors_000 :: "error option"

definition labels_000 :: "SecurityGroup \<Rightarrow> (string \<rightharpoonup> string)" where
  "labels_000 grp =
     [''provider'' \<mapsto> ''aws'', ''type'' \<mapsto> ''security-group'',
      ''group-id'' \<mapsto> aws_ToString (GroupId grp), ''_vpc-id'' \<mapsto> aws_ToString (VpcId grp)]"

definition inventory_000 :: "SecurityGroup \<Rightarrow> InventoryItem list" where
  "inventory_000 grp =
     [\<lparr>InventoryItem_Identifier = ''aws-security-group/'' @ aws_ToString (GroupId grp),
       InventoryItem_Type = ''firewall'',
       InventoryItem_Title = ''Amazon Security Group ['' @ aws_ToString (GroupId grp) @ '']'',
       InventoryItem_Props =
         [\<lparr>Property_Name = ''group-id'', Property_Value = aws_ToString (GroupId grp)\<rparr>,
          \<lparr>Property_Name = ''group-name'', Property_Value = aws_ToString (GroupName grp)\<rparr>,
          \<lparr>Property_Name = ''vpc-id'', Property_Value = aws_ToString (VpcId grp)\<rparr>],
       InventoryItem_ImplementedComponents = [''common-components/amazon-security-group'']\<rparr>]"

definition subjects_000 :: "SecurityGroup \<Rightarrow> Subject list" where
  "subjects_000 grp =
     [\<lparr>Subject_Type = SUBJECT_TYPE_COMPONENT,
       Subject_Identifier = ''common-components/amazon-security-group''\<rparr>,
      \<lparr>Subject_Type = SUBJECT_TYPE_INVENTORY_ITEM,
       Subject_Identifier = ''aws-security-group/'' @ aws_ToString (GroupId grp)\<rparr>]"

text \<open>Lines 135 to 154: the body of the loop over the policy paths.\<close>

definition policy_body_000 ::
  "'e Env_000 \<Rightarrow> SecurityGroup \<Rightarrow> string \<Rightarrow> 'e list \<times> 'e State_000 \<Rightarrow> 'e list \<times> 'e State_000" where
  "policy_body_000 env grp policyPath s =
     (case s of (evidences, st) \<Rightarrow>
        (case GenerateResults_000 env (MergeMaps (labels_000 grp) Map.empty) (subjects_000 grp)
                (inventory_000 grp) policyPath grp of
           (evidence, err) \<Rightarrow>
             (let st1 = st\<lparr>generated_000 := generated_000 st @ [(policyPath, grp)]\<rparr>
              in (evidences @ evidence,
                  (case err of
                     Some e \<Rightarrow>
                       st1\<lparr>accumulatedErrors_000 := errors_Join [accumulatedErrors_000 st1, Some e]\<rparr>
                   | None \<Rightarrow> st1)))))"

text \<open>
  Lines 47 to 162: the loop over what the iterator yields. A pair with an error ends
  the loop (\<^verbatim>\<open>break\<close>) after recording it; a sink failure returns at once.
\<close>

fun groups_loop_000 ::
  "'e Env_000 \<Rightarrow> string list \<Rightarrow> (SecurityGroup \<times> error option) list \<Rightarrow> 'e State_000 \<Rightarrow>
   EvalOutcome \<times> 'e State_000" where
  "groups_loop_000 env policyPaths [] st =
     (Returned \<lparr>Status = evalStatus_000 st\<rparr> (accumulatedErrors_000 st), st)"
| "groups_loop_000 env policyPaths ((grp, Some err) # rest) st =
     (let st1 = st\<lparr>evalStatus_000 := FAILURE,
                    accumulatedErrors_000 := errors_Join [accumulatedErrors_000 st, Some err]\<rparr>
      in (Returned \<lparr>Status = evalStatus_000 st1\<rparr> (accumulatedErrors_000 st1), st1))"
| "groups_loop_000 env policyPaths ((grp, None) # rest) st =
     (case fold (policy_body_000 env grp) policyPaths ([], st) of
        (evidences, st1) \<Rightarrow>
          (let st2 = st1\<lparr>evidence_calls_000 := evidence_calls_000 st1 @ [evidences]\<rparr>
           in (case CreateEvidence_000 env (evidence_calls_000 st1) evidences of
                 Some err \<Rightarrow> (Returned \<lparr>Status = FAILURE\<rparr> (Some err), st2)
               | None \<Rightarrow> groups_loop_000 env policyPaths rest st2)))"

definition init_state_000 :: "'e State_000" where
  "init_state_000 = \<lparr>generated_000 = [], evidence_calls_000 = [],
                     evalStatus_000 = SUCCESS, accumulatedErrors_000 = None\<rparr>"

definition Eval_part_000 :: "'e Env_000 \<Rightarrow> EvalRequest option \<Rightarrow> EvalOutcome \<times> 'e State_000" where
  "Eval_part_000 env request =
     (let st0 = init_state_000;
          st1 = (case LoadDefaultConfig_000 env of
                   Some err \<Rightarrow> st0\<lparr>evalStatus_000 := FAILURE,
                                   accumulatedErrors_000 := errors_Join [accumulatedErrors_000 st0, Some err]\<rparr>
                 | None \<Rightarrow> st0)
      in (case getSecurityGroups (DescribeSecurityGroups_000 env) of
            None \<Rightarrow> (Panicked, st1)
          | Some pairs \<Rightarrow> groups_loop_000 env (GetPolicyPaths request) pairs st1))"

section \<open>Vocabulary of the properties\<close>

text \<open>The risk \<^verbatim>\<open>main.go\<close> makes of one risk entry, as one function.\<close>

definition risk_of :: "PMRisk \<Rightarrow> Risk" where
  "risk_of risk = \<lparr>Risk_Title = PMRisk_Title risk,
            Risk_Description = PMRisk_Description risk,
            Risk_Statement = PMRisk_Statement risk,
            Risk_Props = [],
            Risk_Links = map (\<lambda>l. \<lparr>Link_Href = PMLink_URL l, Link_Text = Some (PMLink_Text l)\<rparr>) (PMRisk_Links risk)\<rparr>"

text \<open>
  The error that keeps a (policy path, instance) pair from being published: the error
  of the evaluation, or else the error of the seeding.
\<close>

definition pair_error :: "Env \<Rightarrow> string \<times> Instance \<Rightarrow> error option" where
  "pair_error env pair =
     (case Execute env (fst pair) (snd pair) of
        Inl err \<Rightarrow> Some err
      | Inr results \<Rightarrow>
          (case streamId (SeededUUID env) (fst pair) (snd pair) of
             Inl err \<Rightarrow> Some err
           | Inr sid \<Rightarrow> None))"





text \<open>The pairs of a run in the order of the two loops: instances outside, policy paths inside.\<close>

definition all_pairs :: "string list \<Rightarrow> Instance list \<Rightarrow> (string \<times> Instance) list" where
  "all_pairs policyPaths insts =
     concat (map (\<lambda>inst. map (\<lambda>policyPath. (policyPath, inst)) policyPaths) insts)"

text \<open>The identifiers of all observations handed to the sink so far.\<close>

definition observation_uuids :: "State \<Rightarrow> string list" where
  "observation_uuids st =
     concat (map (\<lambda>call. map Observation_Uuid (AR_Observations (call_result call))) (published st))"

text \<open>
  The invariant behind their uniqueness: they are what the generator returned at
  pairwise different positions, all of them already passed.
\<close>

definition drawn_once :: "Env \<Rightarrow> State \<Rightarrow> bool" where
  "drawn_once env st =
     (\<exists>ks. observation_uuids st = map (uuid_at env) ks \<and> distinct ks \<and> list_all (\<lambda>k. k < uuids st) ks)"

text \<open>The stream identifier of a pair as the sink receives it.\<close>

definition stream_string :: "Env \<Rightarrow> string \<times> Instance \<Rightarrow> string" where
  "stream_string env pair =
     (case streamId (SeededUUID env) (fst pair) (snd pair) of
        Inl err \<Rightarrow> []
      | Inr sid \<Rightarrow> UUID_String sid)"

text \<open>
  The invariant about the sink: it has been called once for every evaluated pair without
  an error of its own, in the order of evaluation, with the pair's stream identifier,
  policy path and labels.
\<close>

definition published_in_order :: "Env \<Rightarrow> State \<Rightarrow> bool" where
  "published_in_order env st =
     (map (\<lambda>call. (call_streamId call, call_policyPath call, call_labels call)) (published st) =
      map (\<lambda>pair. (stream_string env pair, fst pair, publish_labels (fst pair) (snd pair)))
        (filter (\<lambda>pair. pair_error env pair = None) (executed st)))"

text \<open>The state \<^verbatim>\<open>Eval\<close> of \<^verbatim>\<open>main.go\<close> enters the loop over the instances with.\<close>

definition before_loop :: "Env \<Rightarrow> State" where
  "before_loop env =
     (case snd (DescribeSecurityGroups env) of
        Some err \<Rightarrow> record_failure err
          (case LoadDefaultConfig env of
             Some err \<Rightarrow> record_failure err (snd (time_Now env init_state))
           | None \<Rightarrow> snd (time_Now env init_state))
      | None \<Rightarrow>
          (case LoadDefaultConfig env of
             Some err \<Rightarrow> record_failure err (snd (time_Now env init_state))
           | None \<Rightarrow> snd (time_Now env init_state)))"

text \<open>
  The label set of the spec's stream identifier: resource type, policy path and
  resource id, under the keys \<^verbatim>\<open>main.go\<close> uses.
\<close>

definition stream_label_set :: "string \<Rightarrow> string \<Rightarrow> string \<Rightarrow> (string \<rightharpoonup> string)" where
  "stream_label_set resourceType policyPath resourceId =
     [''type'' \<mapsto> resourceType, ''_policy'' \<mapsto> policyPath, ''security_group_id'' \<mapsto> resourceId]"

text \<open>
  Modelled from the spec: \<^verbatim>\<open>sdk.SeededUUID\<close> is not among the sources, it belongs to
  another repository. The spec calls it a stable, collision-resistant seeding function
  ("same inputs always produce the same identifier", "no collision for the tested input
  domain"). On a domain \<open>D\<close> of label sets: it returns an identifier for every label set
  of \<open>D\<close>, and different identifiers for different label sets of \<open>D\<close>.
\<close>

definition collision_free :: "((string \<rightharpoonup> string) \<Rightarrow> error + UUID) \<Rightarrow> (string \<rightharpoonup> string) set \<Rightarrow> bool" where
  "collision_free seed D = (seed ` D \<subseteq> range Inr \<and> inj_on seed D)"


section \<open>Example inputs\<close>

text \<open>
  A clock that starts at 2024-01-01 00:00:00 UTC and advances by one second at every
  reading, and a generator whose \<open>k\<close>-th identifier is \<open>k + 1\<close> letters long.
\<close>

definition example_clock :: "nat \<Rightarrow> Time" where
  "example_clock k = 1704067200000000000 + 1000000000 * int k"

definition example_uuid :: "nat \<Rightarrow> string" where
  "example_uuid k = replicate (Suc k) CHR ''u''"

text \<open>Two security groups with all three names, and a request with one policy path.\<close>

definition example_group :: SecurityGroup where
  "example_group =
     \<lparr>GroupId = Some ''sg-1'', GroupName = Some ''web'', VpcId = Some ''vpc-1'',
      IpPermissions = [], IpPermissionsEgress = []\<rparr>"

definition example_group_2 :: SecurityGroup where
  "example_group_2 = example_group\<lparr>GroupId := Some ''sg-2''\<rparr>"

definition example_request :: "EvalRequest option" where
  "example_request = Some \<lparr>PolicyPaths = [''policies/ssh'']\<rparr>"

text \<open>A verdict without violations and with one risk, and a verdict with two violations.\<close>

definition example_risk :: PMRisk where
  "example_risk =
     \<lparr>PMRisk_Title = ''Open SSH'', PMRisk_Description = ''Port 22 is reachable'',
      PMRisk_Statement = ''Restrict the source range'',
      PMRisk_Links = [\<lparr>PMLink_URL = ''https://example.org/a'', PMLink_Text = ''A''\<rparr>,
                      \<lparr>PMLink_URL = ''https://example.org/b'', PMLink_Text = ''B''\<rparr>]\<rparr>"

definition example_compliant :: Result where
  "example_compliant =
     \<lparr>Policy_Package = ''compliance_framework.deny_rdp'', Violations = [], Risks = [example_risk]\<rparr>"

definition example_violating :: Result where
  "example_violating =
     \<lparr>Policy_Package = ''compliance_framework.deny_ssh'',
      Violations =
        [\<lparr>Violation_Title = ''SSH open'', Violation_Description = ''0.0.0.0/0 on 22'',
          Violation_Remarks = ''close it''\<rparr>,
         \<lparr>Violation_Title = ''SSH open v6'', Violation_Description = ''::/0 on 22'',
          Violation_Remarks = ''close it too''\<rparr>],
      Risks = []\<rparr>"

text \<open>
  Collaborators of \<^verbatim>\<open>main.go\<close> that never fail, in the zone UTC: one security group,
  both verdicts for every policy, every label set seeded to the identifier 1.
\<close>

definition example_env :: Env where
  "example_env =
     \<lparr>now_at = example_clock, Local = UTC, uuid_at = example_uuid, LoadDefaultConfig = None,
      DescribeSecurityGroups = (Some \<lparr>SecurityGroups = [example_group]\<rparr>, None),
      Execute = (\<lambda>policyPath inst. Inr [example_violating, example_compliant]),
      PurePackage = (\<lambda>package. package),
      SeededUUID = (\<lambda>labels. Inr 1),
      CreateResult = (\<lambda>earlier call. None)\<rparr>"


text \<open>A provider call that fails: a nil output and an error.\<close>

definition fetch_failure_env :: Env where
  "fetch_failure_env =
     example_env\<lparr>DescribeSecurityGroups := (None, Some (Err ''describe security groups failed''))\<rparr>"

text \<open>
  A seeding function that tells the policy path \<^verbatim>\<open>policies/ssh\<close> from all others, a
  request with two policy paths, and the label sets of the two for the first example
  group. Two sets of collaborators with that seeding function: the second has a clock
  standing still at 2024-01-31 00:00:00 UTC and a sink that rejects everything.
\<close>

definition example_seed :: "(string \<rightharpoonup> string) \<Rightarrow> error + UUID" where
  "example_seed labels = (if labels ''_policy'' = Some ''policies/ssh'' then Inr 1 else Inr 2)"

definition two_policies :: "EvalRequest option" where
  "two_policies = Some \<lparr>PolicyPaths = [''policies/ssh'', ''policies/rdp'']\<rparr>"

definition example_domain :: "(string \<rightharpoonup> string) set" where
  "example_domain = {stream_label_set ''aws'' ''policies/ssh'' ''sg-1'',
                     stream_label_set ''aws'' ''policies/rdp'' ''sg-1''}"

definition seeded_env :: Env where
  "seeded_env = example_env\<lparr>SeededUUID := example_seed\<rparr>"

definition seeded_env_2 :: Env where
  "seeded_env_2 =
     seeded_env\<lparr>now_at := (\<lambda>k. 1706659200000000000),
                CreateResult := (\<lambda>earlier call. Some (Err ''sink unavailable''))\<rparr>"

text \<open>
  Collaborators of \<^verbatim>\<open>part_001\<close>: the two security groups, a processor that returns one
  observation and one finding for every policy, and a sink that rejects the first call.
\<close>

definition failing_sink_env_001 :: "(nat, nat) Env_001" where
  "failing_sink_env_001 =
     \<lparr>LoadDefaultConfig_001 = None,
      DescribeSecurityGroups_001 = (Some \<lparr>SecurityGroups = [example_group, example_group_2]\<rparr>, None),
      GenerateResults_001 = (\<lambda>labels subjects policyPath grp. ([1], [2], None)),
      apiHelper_001 = (\<lambda>earlier call. if earlier = [] then Some (Err ''sink unavailable'') else None)\<rparr>"

text \<open>The same with one security group that has no VPC id.\<close>

definition missing_vpc_env_001 :: "(nat, nat) Env_001" where
  "missing_vpc_env_001 =
     failing_sink_env_001\<lparr>DescribeSecurityGroups_001 :=
        (Some \<lparr>SecurityGroups = [example_group\<lparr>VpcId := None\<rparr>]\<rparr>, None)\<rparr>"

text \<open>Collaborators of \<^verbatim>\<open>part_001\<close> whose policy processor fails and whose sink accepts.\<close>

definition failing_policy_env_001 :: "(nat, nat) Env_001" where
  "failing_policy_env_001 =
     \<lparr>LoadDefaultConfig_001 = None,
      DescribeSecurityGroups_001 = (Some \<lparr>SecurityGroups = [example_group]\<rparr>, None),
      GenerateResults_001 = (\<lambda>labels subjects policyPath grp. ([], [], Some (Err ''policy failed''))),
      apiHelper_001 = (\<lambda>earlier call. None)\<rparr>"

section \<open>Properties\<close>

subsection \<open>One verdict\<close>

lemma fold_append_link:
  "fold append_link ls acc =
     acc @ map (\<lambda>l. \<lparr>Link_Href = PMLink_URL l, Link_Text = Some (PMLink_Text l)\<rparr>) ls"
  by (induction ls arbitrary: acc) (simp_all add: append_link_def)

lemma fold_risk_entry:
  "fold risk_entry rs ar = ar\<lparr>AR_Risks := AR_Risks ar @ map risk_of rs\<rparr>"
  by (induction rs arbitrary: ar)
     (simp_all add: risk_entry_def AddRiskEntry_def fold_append_link risk_of_def)

lemma fold_violation_finding:
  "fold (violation_finding inst result u) vs ar =
     ar\<lparr>AR_Findings := AR_Findings ar @ map (\<lambda>v.
       \<lparr>Finding_Title = Violation_Title v,
        Finding_Description = Violation_Description v,
        Finding_Remarks = Some (Violation_Remarks v),
        Finding_RelatedObservations = [u],
        Finding_Target = FindingTargetStatusNotSatisfied,
        Finding_Labels = artifact_labels result inst\<rparr>) vs\<rparr>"
  by (induction vs arbitrary: ar) (simp_all add: violation_finding_def AddFinding_def)

lemma result_body_state:
  "fst (result_body env inst result (st, ar)) =
     st\<lparr>uuids := Suc (uuids st), ticks := Suc (Suc (ticks st))\<rparr>"
  by (simp add: result_body_def no_violations_def violations_found_def uuid_New_def
      time_Now_def Let_def)

lemma result_body_satisfied:
  assumes "Violations result = []"
  shows "snd (result_body env inst result (st, ar)) =
     ar\<lparr>AR_Observations := AR_Observations ar @
          [\<lparr>Observation_Uuid = uuid_at env (uuids st),
            Observation_Title = Some ''The plugin succeeded. No compliance issues to report.'',
            Observation_Description = ''The plugin policies did not return any violations. The configuration is in compliance with policies.'',
            Observation_Collected = timestamppb_New (now_at env (ticks st)),
            Observation_Expires = timestamppb_New (AddDate (Local env) (now_at env (Suc (ticks st))) 0 1 0),
            Observation_RelevantEvidence =
               [''Policy '' @ PurePackage env (Policy_Package result) @ '' was evaluated, and no violations were found on machineId: '' @ ''ARN:12345''],
            Observation_Labels = artifact_labels result inst\<rparr>],
        AR_Findings := AR_Findings ar @
          [\<lparr>Finding_Title = ''No violations found on '' @ PurePackage env (Policy_Package result),
             Finding_Description = ''No violations found on the '' @ PurePackage env (Policy_Package result) @ '' policy within the Template Compliance Plugin.'',
             Finding_Remarks = None,
             Finding_RelatedObservations = [],
             Finding_Target = FindingTargetStatusSatisfied,
             Finding_Labels = artifact_labels result inst\<rparr>],
        AR_Risks := AR_Risks ar @ map risk_of (Risks result)\<rparr>"
  using assms
  by (simp add: result_body_def no_violations_def uuid_New_def time_Now_def
      AddObservation_def AddFinding_def fold_risk_entry Let_def)

lemma result_body_violated:
  assumes "Violations result \<noteq> []"
  shows "snd (result_body env inst result (st, ar)) =
     ar\<lparr>AR_Observations := AR_Observations ar @
          [\<lparr>Observation_Uuid = uuid_at env (uuids st),
            Observation_Title =
               Some (''The plugin found violations for policy '' @ PurePackage env (Policy_Package result) @ '' on machineId: '' @ ''ARN:12345''),
            Observation_Description = ''Observed '' @ string_of_nat (length (Violations result)) @ '' violation(s) for policy '' @ PurePackage env (Policy_Package result),
            Observation_Collected = timestamppb_New (now_at env (ticks st)),
            Observation_Expires = timestamppb_New (AddDate (Local env) (now_at env (Suc (ticks st))) 0 1 0),
            Observation_RelevantEvidence =
               [''Policy '' @ PurePackage env (Policy_Package result) @ '' was evaluated, and '' @ string_of_nat (length (Violations result)) @ '' violations were found''],
            Observation_Labels = artifact_labels result inst\<rparr>],
        AR_Findings := AR_Findings ar @ map (\<lambda>v.
           \<lparr>Finding_Title = Violation_Title v,
            Finding_Description = Violation_Description v,
            Finding_Remarks = Some (Violation_Remarks v),
            Finding_RelatedObservations = [uuid_at env (uuids st)],
            Finding_Target = FindingTargetStatusNotSatisfied,
            Finding_Labels = artifact_labels result inst\<rparr>) (Violations result),
        AR_Risks := AR_Risks ar @ map risk_of (Risks result)\<rparr>"
  using assms
  by (simp add: result_body_def violations_found_def uuid_New_def time_Now_def
      AddObservation_def fold_violation_finding fold_risk_entry Let_def
      del: string_of_nat.simps)

lemma AsTime_timestamppb_New: "AsTime (timestamppb_New t) = t"
  by (simp add: AsTime_def timestamppb_New_def)

text \<open>
  Claim C2 (\<^verbatim>\<open>main.go\<close>, lines 93 to 130). A verdict without violations adds exactly
  one observation and exactly one finding to the assessment result; the finding has
  the status satisfied and names no related observation.
\<close>

theorem satisfied_verdict_artifacts:
  assumes "Violations result = []"
  shows "\<exists>ob f. AR_Observations (snd (result_body env inst result (st, ar))) = AR_Observations ar @ [ob]
           \<and> AR_Findings (snd (result_body env inst result (st, ar))) = AR_Findings ar @ [f]
           \<and> Finding_Target f = FindingTargetStatusSatisfied
           \<and> Finding_RelatedObservations f = []"
proof -
  let ?ar' = "snd (result_body env inst result (st, ar))"
  have obs: "\<exists>ob. AR_Observations ?ar' = AR_Observations ar @ [ob]"
    by (simp add: result_body_satisfied [OF assms])
  have fnd: "\<exists>f. AR_Findings ?ar' = AR_Findings ar @ [f]
               \<and> Finding_Target f = FindingTargetStatusSatisfied
               \<and> Finding_RelatedObservations f = []"
    by (simp add: result_body_satisfied [OF assms])
  from obs fnd show ?thesis by blast
qed

text \<open>
  The theorem at the compliant example verdict, from an empty assessment result.
\<close>

theorem satisfied_verdict_artifacts_witness:
  "Violations example_compliant = []
   \<and> (\<exists>ob f. AR_Observations (snd (result_body example_env (normalize example_group)
                  example_compliant (init_state, NewCallableAssessmentResult))) = [ob]
        \<and> AR_Findings (snd (result_body example_env (normalize example_group)
                  example_compliant (init_state, NewCallableAssessmentResult))) = [f]
        \<and> Finding_Target f = FindingTargetStatusSatisfied
        \<and> Finding_RelatedObservations f = [])"
proof -
  have h: "Violations example_compliant = []"
    by (simp add: example_compliant_def)
  from satisfied_verdict_artifacts [OF h, of example_env "normalize example_group"
      init_state NewCallableAssessmentResult]
  show ?thesis using h by (simp add: NewCallableAssessmentResult_def)
qed

text \<open>
  Claim C6 (\<^verbatim>\<open>main.go\<close>, lines 182 to 198). Whatever the violations of a verdict are, its
  risk entries add one risk each, in order: the risk has the entry's title, description
  and statement, and its links are the entry's links one for one, each with the URL as
  \<^verbatim>\<open>Href\<close> and the text as \<^verbatim>\<open>Text\<close>.
\<close>

theorem risks_emitted_one_to_one:
  "\<exists>rs. AR_Risks (snd (result_body env inst result (st, ar))) = AR_Risks ar @ rs
      \<and> list_all2 (\<lambda>r entry.
            Risk_Title r = PMRisk_Title entry
          \<and> Risk_Description r = PMRisk_Description entry
          \<and> Risk_Statement r = PMRisk_Statement entry
          \<and> list_all2 (\<lambda>l link. Link_Href l = PMLink_URL link \<and> Link_Text l = Some (PMLink_Text link))
               (Risk_Links r) (PMRisk_Links entry))
          rs (Risks result)"
proof -
  have shape: "list_all2 (\<lambda>r entry.
            Risk_Title r = PMRisk_Title entry
          \<and> Risk_Description r = PMRisk_Description entry
          \<and> Risk_Statement r = PMRisk_Statement entry
          \<and> list_all2 (\<lambda>l link. Link_Href l = PMLink_URL link \<and> Link_Text l = Some (PMLink_Text link))
               (Risk_Links r) (PMRisk_Links entry))
          (map risk_of entries) entries" for entries
    by (simp add: list_all2_conv_all_nth risk_of_def)
  have "AR_Risks (snd (result_body env inst result (st, ar))) = AR_Risks ar @ map risk_of (Risks result)"
  proof (cases "Violations result = []")
    case True
    then show ?thesis by (simp add: result_body_satisfied)
  next
    case False
    then show ?thesis by (simp add: result_body_violated)
  qed
  with shape show ?thesis by blast
qed

text \<open>
  The theorem at the compliant example verdict, whose one risk entry has two links.
\<close>

theorem risks_emitted_one_to_one_witness:
  "\<exists>r. AR_Risks (snd (result_body example_env (normalize example_group) example_compliant
            (init_state, NewCallableAssessmentResult))) = [r]
      \<and> Risk_Title r = ''Open SSH''
      \<and> Risk_Description r = ''Port 22 is reachable''
      \<and> Risk_Statement r = ''Restrict the source range''
      \<and> map Link_Href (Risk_Links r) = [''https://example.org/a'', ''https://example.org/b'']
      \<and> map Link_Text (Risk_Links r) = [Some ''A'', Some ''B'']"
proof -
  have entries: "Risks example_compliant = [example_risk]"
    by (simp add: example_compliant_def)
  from risks_emitted_one_to_one [of example_env "normalize example_group" example_compliant
      init_state NewCallableAssessmentResult]
  obtain r where r:
    "AR_Risks (snd (result_body example_env (normalize example_group) example_compliant
            (init_state, NewCallableAssessmentResult))) = [r]"
    "Risk_Title r = PMRisk_Title example_risk"
    "Risk_Description r = PMRisk_Description example_risk"
    "Risk_Statement r = PMRisk_Statement example_risk"
    "list_all2 (\<lambda>l link. Link_Href l = PMLink_URL link \<and> Link_Text l = Some (PMLink_Text link))
       (Risk_Links r) (PMRisk_Links example_risk)"
    by (auto simp add: entries list_all2_Cons2 NewCallableAssessmentResult_def)
  from r(5) have "map Link_Href (Risk_Links r) = [''https://example.org/a'', ''https://example.org/b'']"
      "map Link_Text (Risk_Links r) = [Some ''A'', Some ''B'']"
    by (auto simp add: example_risk_def list_all2_Cons2)
  with r(1-4) show ?thesis
    by (simp add: example_risk_def)
qed

subsection \<open>One pair: the cases of the loop body\<close>

lemma fold_result_body_state:
  "fst (fold (result_body env inst) results s) =
     (fst s)\<lparr>uuids := uuids (fst s) + length results, ticks := ticks (fst s) + 2 * length results\<rparr>"
proof (induction results arbitrary: s)
  case Nil
  show ?case by simp
next
  case (Cons r rs)
  have "fst (result_body env inst r s) = (fst s)\<lparr>uuids := Suc (uuids (fst s)), ticks := Suc (Suc (ticks (fst s)))\<rparr>"
    using result_body_state [of env inst r "fst s" "snd s"] by simp
  with Cons.IH [of "result_body env inst r s"] show ?case by simp
qed

lemma errors_Join_failure: "errors_Join [acc, Some err] \<noteq> None"
  by (simp add: errors_Join_def split: option.splits)



lemma finish_and_publish_cases:
  obtains
    (seed_failed) err where
      "streamId (SeededUUID env) policyPath inst = Inl err"
      "finish_and_publish env startTime inst policyPath ar st =
         record_failure err (st\<lparr>ticks := Suc (ticks st)\<rparr>)"
  | (publish_failed) sid call err where
      "streamId (SeededUUID env) policyPath inst = Inr sid"
      "call_streamId call = UUID_String sid"
      "call_labels call = publish_labels policyPath inst"
      "call_policyPath call = policyPath"
      "AR_Observations (call_result call) = AR_Observations ar"
      "CreateResult env (published st) call = Some err"
      "finish_and_publish env startTime inst policyPath ar st =
         record_failure err (st\<lparr>ticks := Suc (ticks st), published := published st @ [call]\<rparr>)"
  | (published) sid call where
      "streamId (SeededUUID env) policyPath inst = Inr sid"
      "call_streamId call = UUID_String sid"
      "call_labels call = publish_labels policyPath inst"
      "call_policyPath call = policyPath"
      "AR_Observations (call_result call) = AR_Observations ar"
      "CreateResult env (published st) call = None"
      "finish_and_publish env startTime inst policyPath ar st =
         st\<lparr>ticks := Suc (ticks st), published := published st @ [call]\<rparr>"
proof (cases "streamId (SeededUUID env) policyPath inst")
  case (Inl err)
  then have "finish_and_publish env startTime inst policyPath ar st =
         record_failure err (st\<lparr>ticks := Suc (ticks st)\<rparr>)"
    by (simp add: finish_and_publish_def time_Now_def)
  with Inl show ?thesis by (rule seed_failed)
next
  case (Inr sid)
  define call where "call =
    \<lparr>call_streamId = UUID_String sid,
     call_labels = publish_labels policyPath inst,
     call_policyPath = policyPath,
     call_result = AddLogEntry
        \<lparr>LogEntry_Title = Some ''Template check'',
         LogEntry_Description = Some ''Template plugin checks completed successfully'',
         LogEntry_Start = timestamppb_New startTime,
         LogEntry_End = timestamppb_New (now_at env (ticks st))\<rparr>
        (ar\<lparr>AR_Start := Some (timestamppb_New startTime),
            AR_End := Some (timestamppb_New (now_at env (ticks st)))\<rparr>)\<rparr>"
  have facts: "call_streamId call = UUID_String sid"
      "call_labels call = publish_labels policyPath inst"
      "call_policyPath call = policyPath"
      "AR_Observations (call_result call) = AR_Observations ar"
    by (simp_all add: call_def AddLogEntry_def)
  have unfolded: "finish_and_publish env startTime inst policyPath ar st =
      (case CreateResult env (published st) call of
         Some err \<Rightarrow> record_failure err (st\<lparr>ticks := Suc (ticks st), published := published st @ [call]\<rparr>)
       | None \<Rightarrow> st\<lparr>ticks := Suc (ticks st), published := published st @ [call]\<rparr>)"
    using Inr by (simp add: finish_and_publish_def time_Now_def call_def Let_def split: option.split)
  show ?thesis
  proof (cases "CreateResult env (published st) call")
    case None
    with unfolded have "finish_and_publish env startTime inst policyPath ar st =
        st\<lparr>ticks := Suc (ticks st), published := published st @ [call]\<rparr>"
      by simp
    with Inr facts None show ?thesis by (rule published)
  next
    case (Some err)
    with unfolded have "finish_and_publish env startTime inst policyPath ar st =
        record_failure err (st\<lparr>ticks := Suc (ticks st), published := published st @ [call]\<rparr>)"
      by simp
    with Inr facts Some show ?thesis by (rule publish_failed)
  qed
qed

lemma policy_body_cases:
  obtains
    (exec_failed) err where
      "Execute env policyPath inst = Inl err"
      "policy_body env startTime inst policyPath st =
         record_failure err (st\<lparr>executed := executed st @ [(policyPath, inst)]\<rparr>)"
  | (seed_failed) results err where
      "Execute env policyPath inst = Inr results"
      "streamId (SeededUUID env) policyPath inst = Inl err"
      "policy_body env startTime inst policyPath st =
         record_failure err
           (st\<lparr>executed := executed st @ [(policyPath, inst)],
               uuids := uuids st + length results,
               ticks := Suc (ticks st + 2 * length results)\<rparr>)"
  | (publish_failed) results sid call err where
      "Execute env policyPath inst = Inr results"
      "streamId (SeededUUID env) policyPath inst = Inr sid"
      "call_streamId call = UUID_String sid"
      "call_labels call = publish_labels policyPath inst"
      "call_policyPath call = policyPath"
      "AR_Observations (call_result call) =
         AR_Observations (snd (fold (result_body env inst) results
           (st\<lparr>executed := executed st @ [(policyPath, inst)]\<rparr>,
            NewCallableAssessmentResult\<lparr>AR_Title := ''Security Group checks - AWS plugin''\<rparr>)))"
      "CreateResult env (published st) call = Some err"
      "policy_body env startTime inst policyPath st =
         record_failure err
           (st\<lparr>executed := executed st @ [(policyPath, inst)],
               uuids := uuids st + length results,
               ticks := Suc (ticks st + 2 * length results),
               published := published st @ [call]\<rparr>)"
  | (published) results sid call where
      "Execute env policyPath inst = Inr results"
      "streamId (SeededUUID env) policyPath inst = Inr sid"
      "call_streamId call = UUID_String sid"
      "call_labels call = publish_labels policyPath inst"
      "call_policyPath call = policyPath"
      "AR_Observations (call_result call) =
         AR_Observations (snd (fold (result_body env inst) results
           (st\<lparr>executed := executed st @ [(policyPath, inst)]\<rparr>,
            NewCallableAssessmentResult\<lparr>AR_Title := ''Security Group checks - AWS plugin''\<rparr>)))"
      "CreateResult env (published st) call = None"
      "policy_body env startTime inst policyPath st =
         st\<lparr>executed := executed st @ [(policyPath, inst)],
            uuids := uuids st + length results,
            ticks := Suc (ticks st + 2 * length results),
            published := published st @ [call]\<rparr>"
proof (cases "Execute env policyPath inst")
  case (Inl err)
  then have "policy_body env startTime inst policyPath st =
         record_failure err (st\<lparr>executed := executed st @ [(policyPath, inst)]\<rparr>)"
    by (simp add: policy_body_def)
  with Inl show ?thesis by (rule exec_failed)
next
  case (Inr results)
  define s where "s = fold (result_body env inst) results
           (st\<lparr>executed := executed st @ [(policyPath, inst)]\<rparr>,
            NewCallableAssessmentResult\<lparr>AR_Title := ''Security Group checks - AWS plugin''\<rparr>)"
  have fst_s: "fst s = st\<lparr>executed := executed st @ [(policyPath, inst)],
               uuids := uuids st + length results, ticks := ticks st + 2 * length results\<rparr>"
    by (simp add: s_def fold_result_body_state)
  have body: "policy_body env startTime inst policyPath st =
      finish_and_publish env startTime inst policyPath (snd s) (fst s)"
    using Inr by (simp add: policy_body_def s_def Let_def)
  show ?thesis
  proof (cases rule: finish_and_publish_cases [of env policyPath inst startTime "snd s" "fst s"])
    case (seed_failed err)
    show ?thesis
      by (rule that(2) [OF Inr seed_failed(1)]) (simp only: body seed_failed(2), simp add: fst_s)
  next
    case (publish_failed sid call err)
    show ?thesis
    proof (rule that(3) [OF Inr publish_failed(1-4)])
      show "AR_Observations (call_result call) =
         AR_Observations (snd (fold (result_body env inst) results
           (st\<lparr>executed := executed st @ [(policyPath, inst)]\<rparr>,
            NewCallableAssessmentResult\<lparr>AR_Title := ''Security Group checks - AWS plugin''\<rparr>)))"
        using publish_failed(5) by (simp add: s_def)
      show "CreateResult env (published st) call = Some err"
        using publish_failed(6) by (simp add: fst_s)
      show "policy_body env startTime inst policyPath st =
         record_failure err
           (st\<lparr>executed := executed st @ [(policyPath, inst)],
               uuids := uuids st + length results,
               ticks := Suc (ticks st + 2 * length results),
               published := published st @ [call]\<rparr>)"
        by (simp only: body publish_failed(7), simp add: fst_s)
    qed
  next
    case (published sid call)
    show ?thesis
    proof (rule that(4) [OF Inr published(1-4)])
      show "AR_Observations (call_result call) =
         AR_Observations (snd (fold (result_body env inst) results
           (st\<lparr>executed := executed st @ [(policyPath, inst)]\<rparr>,
            NewCallableAssessmentResult\<lparr>AR_Title := ''Security Group checks - AWS plugin''\<rparr>)))"
        using published(5) by (simp add: s_def)
      show "CreateResult env (published st) call = None"
        using published(6) by (simp add: fst_s)
      show "policy_body env startTime inst policyPath st =
         st\<lparr>executed := executed st @ [(policyPath, inst)],
            uuids := uuids st + length results,
            ticks := Suc (ticks st + 2 * length results),
            published := published st @ [call]\<rparr>"
        by (simp only: body published(7), simp add: fst_s)
    qed
  qed
qed

subsection \<open>Errors are accounted for\<close>






lemma fold_invariant:
  assumes "\<And>x s. P s \<Longrightarrow> P (f x s)" and "P s"
  shows "P (fold f xs s)"
  using assms(2) by (induction xs arbitrary: s) (simp_all add: assms(1))




subsection \<open>What is evaluated and what is published\<close>

lemma policy_body_executed:
  "executed (policy_body env startTime inst policyPath st) = executed st @ [(policyPath, inst)]"
  by (cases rule: policy_body_cases [of env policyPath inst startTime st])
     (simp_all add: record_failure_def)

lemma instance_body_executed:
  "executed (instance_body env startTime policyPaths inst st) =
     executed st @ map (\<lambda>policyPath. (policyPath, inst)) policyPaths"
  unfolding instance_body_def
  by (induction policyPaths arbitrary: st) (simp_all add: policy_body_executed)

lemma fold_instance_body_executed:
  "executed (fold (instance_body env startTime policyPaths) insts st) =
     executed st @ all_pairs policyPaths insts"
  by (induction insts arbitrary: st) (simp_all add: instance_body_executed all_pairs_def)

lemma fold_normalize:
  "fold (\<lambda>grp acc. acc @ [normalize grp]) groups acc = acc @ map normalize groups"
  by (induction groups arbitrary: acc) simp_all

lemma policy_body_published_in_order:
  assumes "published_in_order env st"
  shows "published_in_order env (policy_body env startTime inst policyPath st)"
proof (cases rule: policy_body_cases [of env policyPath inst startTime st])
  case (exec_failed err)
  then show ?thesis
    using assms by (simp add: published_in_order_def record_failure_def pair_error_def)
next
  case (seed_failed results err)
  then show ?thesis
    using assms by (simp add: published_in_order_def record_failure_def pair_error_def)
next
  case (publish_failed results sid call err)
  then show ?thesis
    using assms by (simp add: published_in_order_def record_failure_def pair_error_def stream_string_def)
next
  case (published results sid call)
  then show ?thesis
    using assms by (simp add: published_in_order_def pair_error_def stream_string_def)
qed

subsection \<open>Observation identifiers\<close>

lemma result_body_uuid:
  "map Observation_Uuid (AR_Observations (snd (result_body env inst result (st, ar)))) =
     map Observation_Uuid (AR_Observations ar) @ [uuid_at env (uuids st)]"
proof (cases "Violations result = []")
  case True
  then show ?thesis by (simp add: result_body_satisfied)
next
  case False
  then show ?thesis by (simp add: result_body_violated)
qed

lemma fold_result_body_uuids:
  "map Observation_Uuid (AR_Observations (snd (fold (result_body env inst) results s))) =
     map Observation_Uuid (AR_Observations (snd s))
     @ map (uuid_at env) [uuids (fst s) ..< uuids (fst s) + length results]"
proof (induction results arbitrary: s)
  case Nil
  show ?case by simp
next
  case (Cons r rs)
  have step_state: "uuids (fst (result_body env inst r s)) = Suc (uuids (fst s))"
    using result_body_state [of env inst r "fst s" "snd s"] by simp
  have step_uuid: "map Observation_Uuid (AR_Observations (snd (result_body env inst r s))) =
      map Observation_Uuid (AR_Observations (snd s)) @ [uuid_at env (uuids (fst s))]"
    using result_body_uuid [of env inst r "fst s" "snd s"] by simp
  show ?case
    using Cons.IH [of "result_body env inst r s"]
    by (simp add: step_state step_uuid upt_conv_Cons del: upt_Suc)
qed

lemma drawn_once_extend:
  assumes "drawn_once env st"
    and "observation_uuids st' = observation_uuids st @ map (uuid_at env) [uuids st ..< uuids st']"
    and "uuids st \<le> uuids st'"
  shows "drawn_once env st'"
proof -
  from assms(1) obtain ks where ks: "observation_uuids st = map (uuid_at env) ks" "distinct ks"
      "list_all (\<lambda>k. k < uuids st) ks"
    unfolding drawn_once_def by blast
  have "observation_uuids st' = map (uuid_at env) (ks @ [uuids st ..< uuids st'])"
    using assms(2) ks(1) by simp
  moreover have "distinct (ks @ [uuids st ..< uuids st'])"
    using ks(2,3) by (auto simp add: list_all_iff)
  moreover have "list_all (\<lambda>k. k < uuids st') (ks @ [uuids st ..< uuids st'])"
    using ks(3) assms(3) by (auto simp add: list_all_iff)
  ultimately show ?thesis
    unfolding drawn_once_def by blast
qed

lemma drawn_once_skip:
  assumes "drawn_once env st" and "observation_uuids st' = observation_uuids st"
    and "uuids st \<le> uuids st'"
  shows "drawn_once env st'"
proof -
  from assms(1) obtain ks where ks: "observation_uuids st = map (uuid_at env) ks" "distinct ks"
      "list_all (\<lambda>k. k < uuids st) ks"
    unfolding drawn_once_def by blast
  have "list_all (\<lambda>k. k < uuids st') ks"
    using ks(3) assms(3) by (auto simp add: list_all_iff)
  with ks(1,2) assms(2) show ?thesis
    unfolding drawn_once_def by auto
qed

lemma policy_body_drawn_once:
  assumes "drawn_once env st"
  shows "drawn_once env (policy_body env startTime inst policyPath st)"
proof (cases rule: policy_body_cases [of env policyPath inst startTime st])
  case (exec_failed err)
  show ?thesis
    by (rule drawn_once_skip [OF assms])
       (simp_all add: exec_failed(2) record_failure_def observation_uuids_def)
next
  case (seed_failed results err)
  show ?thesis
    by (rule drawn_once_skip [OF assms])
       (simp_all add: seed_failed(3) record_failure_def observation_uuids_def)
next
  case (publish_failed results sid call err)
  show ?thesis
    by (rule drawn_once_extend [OF assms])
       (simp_all add: publish_failed(6,8) record_failure_def observation_uuids_def
          fold_result_body_uuids NewCallableAssessmentResult_def)
next
  case (published results sid call)
  show ?thesis
    by (rule drawn_once_extend [OF assms])
       (simp_all add: published(6,8) observation_uuids_def
          fold_result_body_uuids NewCallableAssessmentResult_def)
qed

lemma drawn_once_distinct:
  assumes "inj (uuid_at env)" and "drawn_once env st"
  shows "distinct (observation_uuids st)"
proof -
  from assms(2) obtain ks where "observation_uuids st = map (uuid_at env) ks" "distinct ks"
    unfolding drawn_once_def by blast
  then show ?thesis
    using assms(1) by (simp add: distinct_map inj_on_subset [OF assms(1)])
qed

subsection \<open>The run\<close>

lemma before_loop_fields:
  "executed (before_loop env) = []" "published (before_loop env) = []"
  "uuids (before_loop env) = 0"
  by (simp_all add: before_loop_def record_failure_def time_Now_def init_state_def
      split: option.split)

lemma startTime_first_reading: "fst (time_Now env init_state) = now_at env 0"
  by (simp add: time_Now_def init_state_def)

lemma Eval_returns:
  assumes "fst (DescribeSecurityGroups env) = Some out"
  shows "Eval env request =
     (Returned \<lparr>Status = evalStatus (snd (Eval env request))\<rparr> (errAcc (snd (Eval env request))),
      fold (instance_body env (now_at env 0) (GetPolicyPaths request))
        (map normalize (SecurityGroups out)) (before_loop env))"
  using assms
  by (simp add: Eval_def Let_def before_loop_def fold_normalize startTime_first_reading)

lemma Eval_panics:
  assumes "fst (DescribeSecurityGroups env) = None"
  shows "Eval env request = (Panicked, before_loop env)"
  using assms by (simp add: Eval_def Let_def before_loop_def)

lemma Eval_invariant:
  assumes step: "\<And>startTime inst policyPath st.
      P st \<Longrightarrow> P (policy_body env startTime inst policyPath st)"
    and init: "P (before_loop env)"
  shows "P (snd (Eval env request))"
proof (cases "fst (DescribeSecurityGroups env)")
  case None
  then show ?thesis by (simp add: Eval_panics init)
next
  case (Some out)
  have "P (fold (instance_body env (now_at env 0) (GetPolicyPaths request))
        (map normalize (SecurityGroups out)) (before_loop env))"
    unfolding instance_body_def
  proof (rule fold_invariant [where P = P])
    show "P (before_loop env)" by (rule init)
  next
    fix inst st
    assume "P st"
    then show "P (fold (policy_body env (now_at env 0) inst) (GetPolicyPaths request) st)"
      by (rule fold_invariant [where P = P, rotated]) (rule step)
  qed
  then show ?thesis
    by (subst Eval_returns [OF Some]) simp
qed

lemma Eval_drawn_once: "drawn_once env (snd (Eval env request))"
proof (rule Eval_invariant [where P = "drawn_once env"])
  show "drawn_once env (before_loop env)"
    by (simp add: drawn_once_def observation_uuids_def before_loop_fields)
qed (rule policy_body_drawn_once)

lemma Eval_published_in_order: "published_in_order env (snd (Eval env request))"
proof (rule Eval_invariant [where P = "published_in_order env"])
  show "published_in_order env (before_loop env)"
    by (simp add: published_in_order_def before_loop_fields)
qed (rule policy_body_published_in_order)

lemma Eval_executed:
  assumes "fst (DescribeSecurityGroups env) = Some out"
  shows "executed (snd (Eval env request)) =
     all_pairs (GetPolicyPaths request) (map normalize (SecurityGroups out))"
proof -
  have "executed (snd (Eval env request)) =
      executed (before_loop env) @ all_pairs (GetPolicyPaths request) (map normalize (SecurityGroups out))"
    by (subst Eval_returns [OF assms]) (simp add: fold_instance_body_executed)
  then show ?thesis
    by (simp add: before_loop_fields)
qed

subsection \<open>The example run\<close>

lemma inj_example_uuid: "inj example_uuid"
  by (simp add: inj_def example_uuid_def)

lemma example_env_fields:
  "uuid_at example_env = example_uuid" "now_at example_env = example_clock"
  "LoadDefaultConfig example_env = None"
  "DescribeSecurityGroups example_env = (Some \<lparr>SecurityGroups = [example_group]\<rparr>, None)"
  "Execute example_env = (\<lambda>policyPath inst. Inr [example_violating, example_compliant])"
  "SeededUUID example_env = (\<lambda>labels. Inr 1)"
  "CreateResult example_env = (\<lambda>earlier call. None)"
  by (simp_all add: example_env_def)

lemma result_body_fst:
  "fst (result_body env inst result s) =
     (fst s)\<lparr>uuids := Suc (uuids (fst s)), ticks := Suc (Suc (ticks (fst s)))\<rparr>"
  using result_body_state [of env inst result "fst s" "snd s"] by simp

lemma example_run:
  "fst (Eval example_env example_request) = Returned \<lparr>Status = SUCCESS\<rparr> None"
  "executed (snd (Eval example_env example_request)) = [(''policies/ssh'', normalize example_group)]"
  "length (published (snd (Eval example_env example_request))) = 1"
  by (simp_all add: Eval_def Let_def time_Now_def init_state_def example_env_fields
      fold_normalize example_request_def GetPolicyPaths_def instance_body_def
      policy_body_def finish_and_publish_def streamId_def result_body_fst)

text \<open>
  Claim C1 (\<^verbatim>\<open>main.go\<close>, lines 134 to 180). A verdict with \<open>N > 0\<close> violations adds exactly
  one observation and exactly \<open>N\<close> findings, all of them not satisfied. The identifier of
  the observation is the one drawn from the generator when the verdict is taken up,
  before any finding is built (the findings draw none, so the generator has advanced by
  one), and it is the only related observation of every one of the findings. When the
  generator never returns the same identifier twice, no two observations handed to the
  sink in a run share an identifier.
\<close>

theorem violating_verdict_artifacts:
  assumes "Violations result \<noteq> []" and "inj (uuid_at env)"
  shows "\<exists>ob fs.
           AR_Observations (snd (result_body env inst result (st, ar))) = AR_Observations ar @ [ob]
         \<and> Observation_Uuid ob = uuid_at env (uuids st)
         \<and> uuids (fst (result_body env inst result (st, ar))) = Suc (uuids st)
         \<and> AR_Findings (snd (result_body env inst result (st, ar))) = AR_Findings ar @ fs
         \<and> length fs = length (Violations result)
         \<and> list_all (\<lambda>f. Finding_Target f = FindingTargetStatusNotSatisfied
                          \<and> Finding_RelatedObservations f = [Observation_Uuid ob]) fs
         \<and> distinct (observation_uuids (snd (Eval env request)))"
proof -
  let ?ar' = "snd (result_body env inst result (st, ar))"
  have obs: "\<exists>ob. AR_Observations ?ar' = AR_Observations ar @ [ob]
               \<and> Observation_Uuid ob = uuid_at env (uuids st)"
    by (simp add: result_body_violated [OF assms(1)])
  have fnd: "\<exists>fs. AR_Findings ?ar' = AR_Findings ar @ fs
               \<and> length fs = length (Violations result)
               \<and> list_all (\<lambda>f. Finding_Target f = FindingTargetStatusNotSatisfied
                          \<and> Finding_RelatedObservations f = [uuid_at env (uuids st)]) fs"
    by (simp add: result_body_violated [OF assms(1)] list_all_iff)
  have drawn: "uuids (fst (result_body env inst result (st, ar))) = Suc (uuids st)"
    by (simp add: result_body_state)
  have run: "distinct (observation_uuids (snd (Eval env request)))"
    using assms(2) Eval_drawn_once by (rule drawn_once_distinct)
  from obs obtain ob where ob: "AR_Observations ?ar' = AR_Observations ar @ [ob]"
      "Observation_Uuid ob = uuid_at env (uuids st)"
    by blast
  from fnd obtain fs where fs: "AR_Findings ?ar' = AR_Findings ar @ fs"
      "length fs = length (Violations result)"
      "list_all (\<lambda>f. Finding_Target f = FindingTargetStatusNotSatisfied
                          \<and> Finding_RelatedObservations f = [Observation_Uuid ob]) fs"
    unfolding ob(2) by blast
  show ?thesis
    by (intro exI [of _ ob] exI [of _ fs] conjI ob fs drawn run)
qed

text \<open>
  The theorem at the violating example verdict (two violations), with the example
  generator, whose first identifier is \<open>u\<close>.
\<close>

theorem violating_verdict_artifacts_witness:
  "Violations example_violating \<noteq> [] \<and> inj (uuid_at example_env)
   \<and> (\<exists>ob fs.
           AR_Observations (snd (result_body example_env (normalize example_group) example_violating
               (init_state, NewCallableAssessmentResult))) = [ob]
         \<and> Observation_Uuid ob = ''u''
         \<and> AR_Findings (snd (result_body example_env (normalize example_group) example_violating
               (init_state, NewCallableAssessmentResult))) = fs
         \<and> length fs = 2
         \<and> list_all (\<lambda>f. Finding_Target f = FindingTargetStatusNotSatisfied
                          \<and> Finding_RelatedObservations f = [''u'']) fs
         \<and> distinct (observation_uuids (snd (Eval example_env example_request))))"
proof -
  have h1: "Violations example_violating \<noteq> []"
    by (simp add: example_violating_def)
  have h2: "inj (uuid_at example_env)"
    by (simp add: example_env_fields inj_example_uuid)
  have len: "length (Violations example_violating) = 2"
    by (simp add: example_violating_def)
  from violating_verdict_artifacts [OF h1 h2, of "normalize example_group" init_state
      NewCallableAssessmentResult example_request]
  obtain ob fs where *:
    "AR_Observations (snd (result_body example_env (normalize example_group) example_violating
               (init_state, NewCallableAssessmentResult))) = AR_Observations NewCallableAssessmentResult @ [ob]"
    "Observation_Uuid ob = uuid_at example_env (uuids init_state)"
    "AR_Findings (snd (result_body example_env (normalize example_group) example_violating
               (init_state, NewCallableAssessmentResult))) = AR_Findings NewCallableAssessmentResult @ fs"
    "length fs = length (Violations example_violating)"
    "list_all (\<lambda>f. Finding_Target f = FindingTargetStatusNotSatisfied
                          \<and> Finding_RelatedObservations f = [Observation_Uuid ob]) fs"
    "distinct (observation_uuids (snd (Eval example_env example_request)))"
    by blast
  have u: "uuid_at example_env (uuids init_state) = ''u''"
    by (simp add: example_env_fields example_uuid_def init_state_def)
  from * show ?thesis
    using h1 h2 len u by (simp add: NewCallableAssessmentResult_def)
qed



text \<open>
  Claim C10 (\<^verbatim>\<open>Configure\<close>, the same in the three revisions). \<^verbatim>\<open>Configure\<close> returns a response
  that is not nil and a nil error, whatever the request; the stored configuration
  becomes the configuration of the request, nothing of the old one is kept, and the
  logger is untouched.
\<close>

theorem Configure_never_fails:
  "fst (snd (Configure l req)) \<noteq> None
   \<and> snd (snd (Configure l req)) = None
   \<and> config (fst (Configure l req)) = GetConfig req
   \<and> logger (fst (Configure l req)) = logger l"
  by (simp add: Configure_def)

text \<open>
  The two timestamps of an observation (\<^verbatim>\<open>main.go\<close>, lines 99 to 100 and 141 to 142):
  it is collected at one reading of the clock and expires one calendar month
  (\<^verbatim>\<open>AddDate(0, 1, 0)\<close> in the local zone) after the next reading, \<^verbatim>\<open>time.Now()\<close> being called
  once for each of the two fields.
\<close>

lemma observation_timestamps:
  "\<exists>ob. AR_Observations (snd (result_body env inst result (st, ar))) = AR_Observations ar @ [ob]
      \<and> AsTime (Observation_Collected ob) = now_at env (ticks st)
      \<and> AsTime (Observation_Expires ob) = AddDate (Local env) (now_at env (Suc (ticks st))) 0 1 0"
proof (cases "Violations result = []")
  case True
  then show ?thesis
    by (simp add: result_body_satisfied AsTime_timestamppb_New)
next
  case False
  then show ?thesis
    by (simp add: result_body_violated AsTime_timestamppb_New)
qed

lemma AddDate_examples:
  "AddDate UTC 1704067200000000000 0 1 0 = 1706745600000000000"
  "AddDate UTC 1704067201000000000 0 1 0 = 1706745601000000000"
  by code_simp+

text \<open>
  Claim C9 on \<^verbatim>\<open>main.go\<close>. The observation of a verdict is collected at one call of
  \<^verbatim>\<open>time.Now()\<close> and its expiry is computed from another (lines 99 to 100; the same at 141
  to 142). With the example clock, in UTC, the first call returns 2024-01-01 00:00:00
  and the second 2024-01-01 00:00:01: the observation is collected at the first instant
  and expires at 2024-02-01 00:00:01, which is not the collection timestamp plus one
  calendar month, 2024-02-01 00:00:00.
\<close>

theorem expiry_not_collection_plus_month:
  "\<exists>ob. AR_Observations (snd (result_body example_env (normalize example_group)
            example_compliant (init_state, NewCallableAssessmentResult))) = [ob]
      \<and> AsTime (Observation_Collected ob) = 1704067200000000000
      \<and> AsTime (Observation_Expires ob) = 1706745601000000000
      \<and> AddDate (Local example_env) (AsTime (Observation_Collected ob)) 0 1 0 = 1706745600000000000
      \<and> AsTime (Observation_Expires ob) \<noteq> AddDate (Local example_env) (AsTime (Observation_Collected ob)) 0 1 0"
proof -
  have none: "Violations example_compliant = []"
    by (simp add: example_compliant_def)
  have clock: "now_at example_env (ticks init_state) = 1704067200000000000"
      "now_at example_env (Suc (ticks init_state)) = 1704067201000000000"
    by (simp_all add: example_env_fields example_clock_def init_state_def)
  have zone: "Local example_env = UTC"
    by (simp add: example_env_def)
  show ?thesis
    by (simp add: result_body_satisfied [OF none] AsTime_timestamppb_New
        NewCallableAssessmentResult_def clock zone AddDate_examples)
qed

text \<open>
  Claim C7 on \<^verbatim>\<open>main.go\<close>. The provider call fails and, as the AWS SDK does on an error,
  leaves the output nil: \<^verbatim>\<open>Eval\<close> records the failure and then reads
  \<^verbatim>\<open>output.SecurityGroups\<close> (line 63), which panics.
\<close>

theorem fetch_failure_panics:
  "fst (Eval fetch_failure_env example_request) = Panicked"
  by (simp add: Eval_def Let_def fetch_failure_env_def)

subsection \<open>Stream identifiers\<close>

lemma hex_char_inj:
  assumes "d < 16" "d' < 16" "hex_char d = hex_char d'"
  shows "d = d'"
proof -
  have "(of_char (hex_char d) :: nat) = of_char (hex_char d')"
    by (simp only: assms(3))
  then have "(if d < 10 then 48 + d else 87 + d) mod 256 = (if d' < 10 then 48 + d' else 87 + d') mod 256"
    by (simp add: hex_char_def take_bit_eq_mod split: if_splits)
  with assms(1,2) show ?thesis
    by (auto split: if_splits)
qed

lemma length_hex_digits: "length (hex_digits k n) = k"
  by (induction k arbitrary: n) simp_all

lemma hex_digits_inj:
  assumes "n < 16 ^ k" "m < 16 ^ k" "hex_digits k n = hex_digits k m"
  shows "n = m"
  using assms
proof (induction k arbitrary: n m)
  case 0
  then show ?case by simp
next
  case (Suc k)
  from Suc.prems(3) have parts: "hex_digits k (n div 16) = hex_digits k (m div 16)"
      "hex_char (n mod 16) = hex_char (m mod 16)"
    by (simp_all add: length_hex_digits)
  have "n div 16 < 16 ^ k" "m div 16 < 16 ^ k"
    using Suc.prems(1,2) by (simp_all add: less_mult_imp_div_less mult.commute)
  with parts(1) have "n div 16 = m div 16"
    by (rule Suc.IH [rotated 2])
  moreover have "n mod 16 = m mod 16"
    using parts(2) by (intro hex_char_inj) simp_all
  ultimately show ?case
    by (metis div_mult_mod_eq)
qed

lemma UUID_String_inj:
  assumes "UUID_String u = UUID_String u'"
  shows "u = u'"
proof -
  define h where "h = hex_digits 32 (unat u)"
  define h' where "h' = hex_digits 32 (unat u')"
  have len: "length h = 32" "length h' = 32"
    by (simp_all add: h_def h'_def length_hex_digits)
  have groups: "take 8 h @ ''-'' @ take 4 (drop 8 h) @ ''-'' @ take 4 (drop 12 h) @ ''-'' @
         take 4 (drop 16 h) @ ''-'' @ drop 20 h =
        take 8 h' @ ''-'' @ take 4 (drop 8 h') @ ''-'' @ take 4 (drop 12 h') @ ''-'' @
         take 4 (drop 16 h') @ ''-'' @ drop 20 h'"
    using assms by (simp add: UUID_String_def h_def h'_def Let_def)
  have p1: "take 8 h = take 8 h'"
    and r1: "take 4 (drop 8 h) @ ''-'' @ take 4 (drop 12 h) @ ''-'' @ take 4 (drop 16 h) @ ''-'' @ drop 20 h
           = take 4 (drop 8 h') @ ''-'' @ take 4 (drop 12 h') @ ''-'' @ take 4 (drop 16 h') @ ''-'' @ drop 20 h'"
    using groups len by (simp_all add: append_eq_append_conv)
  have p2: "take 4 (drop 8 h) = take 4 (drop 8 h')"
    and r2: "take 4 (drop 12 h) @ ''-'' @ take 4 (drop 16 h) @ ''-'' @ drop 20 h
           = take 4 (drop 12 h') @ ''-'' @ take 4 (drop 16 h') @ ''-'' @ drop 20 h'"
    using r1 len by (simp_all add: append_eq_append_conv)
  have p3: "take 4 (drop 12 h) = take 4 (drop 12 h')"
    and r3: "take 4 (drop 16 h) @ ''-'' @ drop 20 h = take 4 (drop 16 h') @ ''-'' @ drop 20 h'"
    using r2 len by (simp_all add: append_eq_append_conv)
  have p4: "take 4 (drop 16 h) = take 4 (drop 16 h')" and p5: "drop 20 h = drop 20 h'"
    using r3 len by (simp_all add: append_eq_append_conv)
  have split: "take 8 xs @ take 4 (drop 8 xs) @ take 4 (drop 12 xs) @ take 4 (drop 16 xs) @ drop 20 xs = xs"
    for xs :: string
  proof -
    have a: "take 4 (drop 16 xs) @ drop 20 xs = drop 16 xs"
      using append_take_drop_id [of 4 "drop 16 xs"] by simp
    have b: "take 4 (drop 12 xs) @ drop 16 xs = drop 12 xs"
      using append_take_drop_id [of 4 "drop 12 xs"] by simp
    have c: "take 4 (drop 8 xs) @ drop 12 xs = drop 8 xs"
      using append_take_drop_id [of 4 "drop 8 xs"] by simp
    show ?thesis
      by (simp only: a b c append_take_drop_id)
  qed
  have "h = take 8 h' @ take 4 (drop 8 h') @ take 4 (drop 12 h') @ take 4 (drop 16 h') @ drop 20 h'"
    using split [of h] by (simp only: p1 p2 p3 p4 p5)
  then have "h = h'"
    by (simp only: split)
  then have "unat u = unat u'"
    unfolding h_def h'_def
  proof (rule hex_digits_inj [rotated 2])
    have "unat u < 2 ^ 128" "unat u' < 2 ^ 128"
      using unsigned_less [of u] unsigned_less [of u'] by simp_all
    then show "unat u < 16 ^ 32" "unat u' < 16 ^ 32"
      by simp_all
  qed
  then show ?thesis by (simp add: word_unat_eq_iff)
qed

lemma seed_labels_stream_label_set:
  "seed_labels policyPath inst = stream_label_set ''aws'' policyPath (instance_SecurityGroupID inst)"
  by (simp add: seed_labels_def stream_label_set_def)

lemma stream_label_set_eq:
  "(stream_label_set t p g = stream_label_set t' p' g') = (t = t' \<and> p = p' \<and> g = g')"
proof
  assume eq: "stream_label_set t p g = stream_label_set t' p' g'"
  have "stream_label_set t p g ''type'' = stream_label_set t' p' g' ''type''"
    "stream_label_set t p g ''_policy'' = stream_label_set t' p' g' ''_policy''"
    "stream_label_set t p g ''security_group_id'' = stream_label_set t' p' g' ''security_group_id''"
    by (simp_all only: eq)
  then show "t = t' \<and> p = p' \<and> g = g'"
    by (simp add: stream_label_set_def)
next
  assume "t = t' \<and> p = p' \<and> g = g'"
  then show "stream_label_set t p g = stream_label_set t' p' g'"
    by simp
qed

lemma published_call_shape:
  assumes "call \<in> set (published (snd (Eval env request)))"
  shows "\<exists>g sid. call_labels call ''security_group_id'' = Some g
           \<and> SeededUUID env (stream_label_set ''aws'' (call_policyPath call) g) = Inr sid
           \<and> call_streamId call = UUID_String sid"
proof -
  let ?st = "snd (Eval env request)"
  have "(call_streamId call, call_policyPath call, call_labels call)
      \<in> set (map (\<lambda>call. (call_streamId call, call_policyPath call, call_labels call)) (published ?st))"
    using assms by simp
  also have "map (\<lambda>call. (call_streamId call, call_policyPath call, call_labels call)) (published ?st) =
        map (\<lambda>pair. (stream_string env pair, fst pair, publish_labels (fst pair) (snd pair)))
          (filter (\<lambda>pair. pair_error env pair = None) (executed ?st))"
    using Eval_published_in_order [of env request] by (simp add: published_in_order_def)
  finally obtain pair where pair: "pair_error env pair = None"
      "call_streamId call = stream_string env pair" "call_policyPath call = fst pair"
      "call_labels call = publish_labels (fst pair) (snd pair)"
    by auto
  from pair(1) obtain sid where sid: "streamId (SeededUUID env) (fst pair) (snd pair) = Inr sid"
    by (auto simp add: pair_error_def split: sum.splits)
  have "call_labels call ''security_group_id'' = Some (instance_SecurityGroupID (snd pair))"
    by (simp add: pair(4) publish_labels_def)
  moreover have "SeededUUID env (stream_label_set ''aws'' (call_policyPath call)
        (instance_SecurityGroupID (snd pair))) = Inr sid"
    using sid by (simp add: streamId_def seed_labels_stream_label_set pair(3))
  moreover have "call_streamId call = UUID_String sid"
    by (simp add: pair(2) stream_string_def sid)
  ultimately show ?thesis by blast
qed

text \<open>
  Claim C3 (\<^verbatim>\<open>main.go\<close>, lines 206 to 234). The stream identifier of a pair is the seeding
  function applied to the label set of the resource type (in this plugin the constant
  \<^verbatim>\<open>aws\<close>), the policy path and the security group id, and to nothing else. Two results
  handed to the sink, in one run or in two runs with any clocks, generators, verdicts and
  sinks, carry the same stream identifier when their policy path and security group id
  are the same. The seeding function being free of collisions on a domain of label
  sets, they carry different stream identifiers when the policy path or the security
  group id differs and both label sets are in the domain; and on the domain, changing
  any one of the three labels changes the identifier.
\<close>

theorem stream_identifier_pure:
  assumes "collision_free (SeededUUID env) D" and "SeededUUID env' = SeededUUID env"
  shows "streamId (SeededUUID env) policyPath inst =
           SeededUUID env (stream_label_set ''aws'' policyPath (instance_SecurityGroupID inst))
       \<and> (\<forall>call \<in> set (published (snd (Eval env request))).
          \<forall>call' \<in> set (published (snd (Eval env' request'))).
            (call_policyPath call = call_policyPath call'
               \<and> call_labels call ''security_group_id'' = call_labels call' ''security_group_id''
             \<longrightarrow> call_streamId call = call_streamId call')
          \<and> ((call_policyPath call \<noteq> call_policyPath call'
               \<or> call_labels call ''security_group_id'' \<noteq> call_labels call' ''security_group_id'')
              \<and> stream_label_set ''aws'' (call_policyPath call)
                   (the (call_labels call ''security_group_id'')) \<in> D
              \<and> stream_label_set ''aws'' (call_policyPath call')
                   (the (call_labels call' ''security_group_id'')) \<in> D
             \<longrightarrow> call_streamId call \<noteq> call_streamId call'))
       \<and> (stream_label_set t p g \<in> D \<and> stream_label_set t' p' g' \<in> D
            \<and> (t \<noteq> t' \<or> p \<noteq> p' \<or> g \<noteq> g')
          \<longrightarrow> (\<exists>sid sid'. SeededUUID env (stream_label_set t p g) = Inr sid
                  \<and> SeededUUID env (stream_label_set t' p' g') = Inr sid' \<and> sid \<noteq> sid'))"
proof (intro conjI ballI impI)
  show "streamId (SeededUUID env) policyPath inst =
           SeededUUID env (stream_label_set ''aws'' policyPath (instance_SecurityGroupID inst))"
    by (simp add: streamId_def seed_labels_stream_label_set)
next
  fix call call'
  assume c: "call \<in> set (published (snd (Eval env request)))"
    and c': "call' \<in> set (published (snd (Eval env' request')))"
    and same: "call_policyPath call = call_policyPath call'
               \<and> call_labels call ''security_group_id'' = call_labels call' ''security_group_id''"
  from published_call_shape [OF c] published_call_shape [OF c'] same assms(2)
  show "call_streamId call = call_streamId call'"
    by auto
next
  fix call call'
  assume c: "call \<in> set (published (snd (Eval env request)))"
    and c': "call' \<in> set (published (snd (Eval env' request')))"
    and differ: "(call_policyPath call \<noteq> call_policyPath call'
               \<or> call_labels call ''security_group_id'' \<noteq> call_labels call' ''security_group_id'')
              \<and> stream_label_set ''aws'' (call_policyPath call)
                   (the (call_labels call ''security_group_id'')) \<in> D
              \<and> stream_label_set ''aws'' (call_policyPath call')
                   (the (call_labels call' ''security_group_id'')) \<in> D"
  from published_call_shape [OF c] obtain g sid where a:
    "call_labels call ''security_group_id'' = Some g"
    "SeededUUID env (stream_label_set ''aws'' (call_policyPath call) g) = Inr sid"
    "call_streamId call = UUID_String sid"
    by blast
  from published_call_shape [OF c'] assms(2) obtain g' sid' where b:
    "call_labels call' ''security_group_id'' = Some g'"
    "SeededUUID env (stream_label_set ''aws'' (call_policyPath call') g') = Inr sid'"
    "call_streamId call' = UUID_String sid'"
    by auto
  have "stream_label_set ''aws'' (call_policyPath call) g \<noteq> stream_label_set ''aws'' (call_policyPath call') g'"
    using differ a(1) b(1) by (auto simp add: stream_label_set_eq)
  moreover have "stream_label_set ''aws'' (call_policyPath call) g \<in> D"
      "stream_label_set ''aws'' (call_policyPath call') g' \<in> D"
    using differ a(1) b(1) by simp_all
  ultimately have "SeededUUID env (stream_label_set ''aws'' (call_policyPath call) g)
      \<noteq> SeededUUID env (stream_label_set ''aws'' (call_policyPath call') g')"
    using assms(1) by (auto simp add: collision_free_def dest: inj_onD)
  then have "sid \<noteq> sid'"
    using a(2) b(2) by auto
  then show "call_streamId call \<noteq> call_streamId call'"
    using a(3) b(3) UUID_String_inj by auto
next
  assume d: "stream_label_set t p g \<in> D \<and> stream_label_set t' p' g' \<in> D
            \<and> (t \<noteq> t' \<or> p \<noteq> p' \<or> g \<noteq> g')"
  then have ne: "stream_label_set t p g \<noteq> stream_label_set t' p' g'"
    by (simp add: stream_label_set_eq)
  from d assms(1) obtain sid sid' where ids:
    "SeededUUID env (stream_label_set t p g) = Inr sid"
    "SeededUUID env (stream_label_set t' p' g') = Inr sid'"
    unfolding collision_free_def by blast
  have "SeededUUID env (stream_label_set t p g) \<noteq> SeededUUID env (stream_label_set t' p' g')"
    using d ne assms(1) by (auto simp add: collision_free_def dest: inj_onD)
  with ids show "\<exists>sid sid'. SeededUUID env (stream_label_set t p g) = Inr sid
                  \<and> SeededUUID env (stream_label_set t' p' g') = Inr sid' \<and> sid \<noteq> sid'"
    by auto
qed

lemma seeded_run:
  assumes "SeededUUID env = example_seed"
    and "Execute env = (\<lambda>policyPath inst. Inr [example_violating, example_compliant])"
    and "fst (DescribeSecurityGroups env) = Some \<lparr>SecurityGroups = [example_group]\<rparr>"
  shows "\<exists>c1 c2. published (snd (Eval env two_policies)) = [c1, c2]
           \<and> call_policyPath c1 = ''policies/ssh'' \<and> call_policyPath c2 = ''policies/rdp''
           \<and> call_labels c1 ''security_group_id'' = Some ''sg-1''
           \<and> call_labels c2 ''security_group_id'' = Some ''sg-1''"
proof -
  let ?st = "snd (Eval env two_policies)"
  let ?n = "normalize example_group"
  have exec: "executed ?st = [(''policies/ssh'', ?n), (''policies/rdp'', ?n)]"
    by (simp add: Eval_executed [OF assms(3)] all_pairs_def two_policies_def GetPolicyPaths_def)
  have ok: "pair_error env pair = None" for pair
    by (simp add: pair_error_def assms(1,2) streamId_def example_seed_def)
  have "map (\<lambda>call. (call_streamId call, call_policyPath call, call_labels call)) (published ?st) =
        map (\<lambda>pair. (stream_string env pair, fst pair, publish_labels (fst pair) (snd pair)))
          (filter (\<lambda>pair. pair_error env pair = None) (executed ?st))"
    using Eval_published_in_order [of env two_policies] by (simp add: published_in_order_def)
  then have "map (\<lambda>call. (call_streamId call, call_policyPath call, call_labels call)) (published ?st) =
        [(stream_string env (''policies/ssh'', ?n), ''policies/ssh'', publish_labels ''policies/ssh'' ?n),
         (stream_string env (''policies/rdp'', ?n), ''policies/rdp'', publish_labels ''policies/rdp'' ?n)]"
    by (simp add: ok exec)
  then obtain c1 c2 where "published ?st = [c1, c2]"
      "call_policyPath c1 = ''policies/ssh''" "call_labels c1 = publish_labels ''policies/ssh'' ?n"
      "call_policyPath c2 = ''policies/rdp''" "call_labels c2 = publish_labels ''policies/rdp'' ?n"
    by (auto simp add: map_eq_Cons_conv)
  then show ?thesis
    by (simp add: publish_labels_def normalize_def example_group_def aws_ToString_def)
qed

text \<open>
  The theorem at two runs over one security group and two policy paths, the second
  with another clock and a sink that rejects everything, and at the example seeding
  function, which is free of collisions on the label sets of the two policy paths.
\<close>

theorem stream_identifier_pure_witness:
  "collision_free (SeededUUID seeded_env) example_domain
   \<and> SeededUUID seeded_env_2 = SeededUUID seeded_env
   \<and> (\<exists>c1 c2 c1' c2'.
         published (snd (Eval seeded_env two_policies)) = [c1, c2]
       \<and> published (snd (Eval seeded_env_2 two_policies)) = [c1', c2']
       \<and> call_streamId c1 = call_streamId c1'
       \<and> call_streamId c2 = call_streamId c2'
       \<and> call_streamId c1 \<noteq> call_streamId c2)"
proof -
  have seeds: "SeededUUID seeded_env = example_seed" "SeededUUID seeded_env_2 = example_seed"
    by (simp_all add: seeded_env_def seeded_env_2_def)
  have free: "collision_free (SeededUUID seeded_env) example_domain"
    by (auto simp add: seeds collision_free_def example_domain_def example_seed_def
        stream_label_set_def inj_on_def)
  have same: "SeededUUID seeded_env_2 = SeededUUID seeded_env"
    by (simp add: seeds)
  have fields: "Execute seeded_env = (\<lambda>policyPath inst. Inr [example_violating, example_compliant])"
      "fst (DescribeSecurityGroups seeded_env) = Some \<lparr>SecurityGroups = [example_group]\<rparr>"
      "Execute seeded_env_2 = (\<lambda>policyPath inst. Inr [example_violating, example_compliant])"
      "fst (DescribeSecurityGroups seeded_env_2) = Some \<lparr>SecurityGroups = [example_group]\<rparr>"
    by (simp_all add: seeded_env_def seeded_env_2_def example_env_def)
  from seeded_run [OF seeds(1) fields(1,2)] obtain c1 c2 where run1:
    "published (snd (Eval seeded_env two_policies)) = [c1, c2]"
    "call_policyPath c1 = ''policies/ssh''" "call_policyPath c2 = ''policies/rdp''"
    "call_labels c1 ''security_group_id'' = Some ''sg-1''"
    "call_labels c2 ''security_group_id'' = Some ''sg-1''"
    by blast
  from seeded_run [OF seeds(2) fields(3,4)] obtain c1' c2' where run2:
    "published (snd (Eval seeded_env_2 two_policies)) = [c1', c2']"
    "call_policyPath c1' = ''policies/ssh''" "call_policyPath c2' = ''policies/rdp''"
    "call_labels c1' ''security_group_id'' = Some ''sg-1''"
    "call_labels c2' ''security_group_id'' = Some ''sg-1''"
    by blast
  note two_runs = stream_identifier_pure [OF free same, of _ _ two_policies two_policies, THEN conjunct2, THEN conjunct1]
  note one_run = stream_identifier_pure [OF free refl, of _ _ two_policies two_policies, THEN conjunct2, THEN conjunct1]
  have "call_streamId c1 = call_streamId c1'"
    using two_runs [rule_format, of c1 c1'] by (simp add: run1 run2)
  moreover have "call_streamId c2 = call_streamId c2'"
    using two_runs [rule_format, of c2 c2'] by (simp add: run1 run2)
  moreover have "call_streamId c1 \<noteq> call_streamId c2"
    using one_run [rule_format, of c1 c2] by (simp add: run1 example_domain_def)
  ultimately show ?thesis
    using free same run1(1) run2(1) by blast
qed

subsection \<open>The loop of \<^verbatim>\<open>part_001\<close>\<close>






text \<open>
  Claim C8 on \<^verbatim>\<open>part_001\<close>. A security group without a VPC id makes \<^verbatim>\<open>Eval\<close> panic:
  \<^verbatim>\<open>*group.VpcId\<close> (line 75) dereferences nil. \<^verbatim>\<open>main.go\<close> and \<^verbatim>\<open>part_000\<close> read the same
  fields through \<^verbatim>\<open>aws.ToString\<close>, which accepts nil.
\<close>

theorem missing_vpc_id_panics_001:
  "fst (Eval_part_001 missing_vpc_env_001 example_request) = Panicked"
  by (simp add: Eval_part_001_def Let_def missing_vpc_env_001_def failing_sink_env_001_def
      group_body_001_def example_group_def)

text \<open>
  The revision of \<^verbatim>\<open>part_000\<close> does what claim C7 says: when the provider call fails the
  iterator yields the error, the loop joins it to the accumulated errors and ends, no
  policy is evaluated and nothing is sent.
\<close>

lemma part_000_fetch_failure:
  assumes "snd (DescribeSecurityGroups_000 env) = Some err"
  shows "\<exists>joined. fst (Eval_part_000 env request) = Returned \<lparr>Status = FAILURE\<rparr> (Some joined)
           \<and> joined_errors (Some joined) = non_nil [LoadDefaultConfig_000 env] @ [err]
           \<and> generated_000 (snd (Eval_part_000 env request)) = []
           \<and> evidence_calls_000 (snd (Eval_part_000 env request)) = []"
  using assms
  by (simp add: Eval_part_000_def Let_def getSecurityGroups_def init_state_000_def
      errors_Join_def joined_errors_def split: option.splits)



text \<open>
  In the revision of \<^verbatim>\<open>part_001\<close> an error of the policy processor is joined into the
  accumulated errors without touching the status (lines 153 to 155): the run returns
  \<^verbatim>\<open>SUCCESS\<close> together with the error.
\<close>

lemma policy_error_keeps_success_001:
  "fst (Eval_part_001 failing_policy_env_001 example_request) =
     Returned \<lparr>Status = SUCCESS\<rparr> (Some (joinError [Err ''policy failed'']))"
  by (simp add: Eval_part_001_def Let_def failing_policy_env_001_def init_state_001_def
      example_request_def GetPolicyPaths_def group_body_001_def policy_body_001_def
      example_group_def errors_Join_def)

end
